theory Spec2Isabelle
  imports Complex_Main
begin

section \<open>Strings\<close>

text \<open>
  JavaScript strings are modelled as \<^typ>\<open>string\<close>, one \<^typ>\<open>char\<close> per code unit.
  The model is exact for ASCII text; the source's pictographs are written as their
  UTF-8 bytes.
\<close>

text \<open>\<^verbatim>\<open>String.prototype.startsWith\<close>.\<close>

fun startsWith :: "string \<Rightarrow> string \<Rightarrow> bool" where
  "startsWith s [] = True"
| "startsWith [] (p # ps) = False"
| "startsWith (c # cs) (p # ps) = (c = p \<and> startsWith cs ps)"

text \<open>\<^verbatim>\<open>String.prototype.includes\<close>: the pattern occurs at some position.\<close>

fun str_includes :: "string \<Rightarrow> string \<Rightarrow> bool" where
  "str_includes [] p = (p = [])"
| "str_includes (c # cs) p = (startsWith (c # cs) p \<or> str_includes cs p)"

text \<open>\<^verbatim>\<open>String.prototype.endsWith\<close>.\<close>

definition endsWith :: "string \<Rightarrow> string \<Rightarrow> bool" where
  "endsWith s p = startsWith (rev s) (rev p)"

text \<open>The ASCII members of the white space that \<^verbatim>\<open>trim\<close> strips.\<close>

definition is_space :: "char \<Rightarrow> bool" where
  "is_space c = (c = CHR '' '' \<or> c = CHR 0x09 \<or> c = CHR 0x0A \<or> c = CHR 0x0B
     \<or> c = CHR 0x0C \<or> c = CHR 0x0D)"

definition trimStart :: "string \<Rightarrow> string" where
  "trimStart s = dropWhile is_space s"

definition trim :: "string \<Rightarrow> string" where
  "trim s = rev (dropWhile is_space (rev (dropWhile is_space s)))"

text \<open>\<^verbatim>\<open>s.split(sep)\<close> for a separator of one character: never empty, the empty
  string gives one empty piece.\<close>

fun split_on :: "char \<Rightarrow> string \<Rightarrow> string list" where
  "split_on x [] = [[]]"
| "split_on x (c # cs) =
     (if c = x then [] # split_on x cs
      else (case split_on x cs of l # ls \<Rightarrow> (c # l) # ls | [] \<Rightarrow> [[c]]))"

definition split_lines :: "string \<Rightarrow> string list" where
  "split_lines s = split_on (CHR 0x0A) s"

text \<open>\<^verbatim>\<open>s.substring(n)\<close> for a non-negative \<open>n\<close>.\<close>

definition substring :: "string \<Rightarrow> nat \<Rightarrow> string" where
  "substring s n = drop n s"



subsection \<open>Decimal numerals\<close>

definition digit_char :: "nat \<Rightarrow> char" where
  "digit_char d =
     (if d = 0 then CHR ''0'' else if d = 1 then CHR ''1'' else if d = 2 then CHR ''2''
      else if d = 3 then CHR ''3'' else if d = 4 then CHR ''4'' else if d = 5 then CHR ''5''
      else if d = 6 then CHR ''6'' else if d = 7 then CHR ''7'' else if d = 8 then CHR ''8''
      else CHR ''9'')"

fun show_nat :: "nat \<Rightarrow> string" where
  "show_nat n = (if n < 10 then [digit_char n] else show_nat (n div 10) @ [digit_char (n mod 10)])"

definition show_int :: "int \<Rightarrow> string" where
  "show_int i = (if i < 0 then CHR ''-'' # show_nat (nat (- i)) else show_nat (nat i))"

definition is_digit :: "char \<Rightarrow> bool" where
  "is_digit c = ((48::nat) \<le> of_char c \<and> of_char c \<le> (57::nat))"

definition digit_val :: "char \<Rightarrow> nat" where
  "digit_val c = of_char c - 48"

definition nat_of_digits :: "string \<Rightarrow> nat" where
  "nat_of_digits ds = foldl (\<lambda>a c. 10 * a + digit_val c) 0 ds"


section \<open>Numbers\<close>

text \<open>
  A finite IEEE-754 double is modelled by the rational it denotes. \<open>to_double\<close> rounds
  a rational to 53 significant bits, ties to even; the exponent is unbounded, so overflow
  to \<^verbatim>\<open>Infinity\<close> and gradual underflow are outside the model.
\<close>

fun bits :: "nat \<Rightarrow> nat" where
  "bits n = (if n = 0 then 0 else Suc (bits (n div 2)))"

definition pow2 :: "int \<Rightarrow> rat" where
  "pow2 k = (if 0 \<le> k then 2 ^ nat k else 1 / 2 ^ nat (- k))"

definition round_half_even :: "rat \<Rightarrow> int" where
  "round_half_even x =
     (let f = \<lfloor>x\<rfloor>; d = x - of_int f
      in if d < 1 / 2 then f else if 1 / 2 < d then f + 1 else if even f then f else f + 1)"

text \<open>For \<open>0 < a\<close>: the exponent \<open>e\<close> with \<open>2 ^ e \<le> a < 2 ^ (e + 1)\<close>.\<close>

definition binade :: "rat \<Rightarrow> int" where
  "binade a =
     (let (n, d) = quotient_of a; e0 = int (bits (nat n)) - int (bits (nat d))
      in if pow2 e0 \<le> a then e0 else e0 - 1)"

definition to_double :: "rat \<Rightarrow> rat" where
  "to_double q =
     (if q = 0 then 0
      else let a = \<bar>q\<bar>; u = pow2 (binade a - 52)
           in sgn q * of_int (round_half_even (a / u)) * u)"


section \<open>JSON values and \<^verbatim>\<open>JSON.parse\<close>\<close>

datatype json =
    JNull
  | JBool bool
  | JNum rat
  | JStr string
  | JArr "json list"
  | JObj "(string \<times> json) list"

text \<open>Property access \<^verbatim>\<open>v.k\<close> on a non-null value; \<open>None\<close> is \<^verbatim>\<open>undefined\<close>.
  A repeated key keeps its last value.\<close>

fun jprop :: "string \<Rightarrow> json \<Rightarrow> json option" where
  "jprop k (JObj ms) = map_of (rev ms) k"
| "jprop k v = None"

text \<open>The \<^verbatim>\<open>in\<close> operator on an object.\<close>

fun jhas :: "string \<Rightarrow> json \<Rightarrow> bool" where
  "jhas k (JObj ms) = (k \<in> fst ` set ms)"
| "jhas k v = False"

text \<open>Truthiness of a parsed value, and of an optional one.\<close>

fun truthy :: "json \<Rightarrow> bool" where
  "truthy JNull = False"
| "truthy (JBool b) = b"
| "truthy (JNum q) = (q \<noteq> 0)"
| "truthy (JStr s) = (s \<noteq> [])"
| "truthy (JArr vs) = True"
| "truthy (JObj ms) = True"

definition dquote :: char where
  "dquote = CHR 0x22"

definition backslash :: char where
  "backslash = CHR 0x5C"

definition is_json_ws :: "char \<Rightarrow> bool" where
  "is_json_ws c = (c = CHR '' '' \<or> c = CHR 0x09 \<or> c = CHR 0x0A \<or> c = CHR 0x0D)"

definition skip_ws :: "string \<Rightarrow> string" where
  "skip_ws s = dropWhile is_json_ws s"

definition hex_val :: "char \<Rightarrow> nat option" where
  "hex_val c =
     (let n = of_char c
      in if 48 \<le> n \<and> n \<le> 57 then Some (n - 48)
         else if 65 \<le> n \<and> n \<le> 70 then Some (n - 55)
         else if 97 \<le> n \<and> n \<le> 102 then Some (n - 87)
         else None)"

text \<open>A \<^verbatim>\<open>\uXXXX\<close> escape is stored as the UTF-8 bytes of its code unit.\<close>

definition utf8_encode :: "nat \<Rightarrow> string" where
  "utf8_encode n =
     (if n < 128 then [char_of n]
      else if n < 2048 then [char_of (192 + n div 64), char_of (128 + n mod 64)]
      else [char_of (224 + n div 4096), char_of (128 + (n div 64) mod 64), char_of (128 + n mod 64)])"

definition escape_char :: "char \<Rightarrow> char option" where
  "escape_char e =
     (if e = dquote then Some dquote
      else if e = backslash then Some backslash
      else if e = CHR ''/'' then Some CHR ''/''
      else if e = CHR ''b'' then Some (CHR 0x08)
      else if e = CHR ''f'' then Some (CHR 0x0C)
      else if e = CHR ''n'' then Some (CHR 0x0A)
      else if e = CHR ''r'' then Some (CHR 0x0D)
      else if e = CHR ''t'' then Some (CHR 0x09)
      else None)"

text \<open>The characters of a string literal after its opening quote, and the rest.\<close>

fun parse_string :: "string \<Rightarrow> (string \<times> string) option" where
  "parse_string [] = None"
| "parse_string (c # cs) =
     (if c = dquote then Some ([], cs)
      else if c = backslash then
        (case cs of
           [] \<Rightarrow> None
         | e # r \<Rightarrow>
             if e = CHR ''u'' then
               (case r of
                  h1 # h2 # h3 # h4 # r' \<Rightarrow>
                    (case (hex_val h1, hex_val h2, hex_val h3, hex_val h4) of
                       (Some a, Some b, Some c', Some d) \<Rightarrow>
                         map_option (\<lambda>(s, rest). (utf8_encode (4096 * a + 256 * b + 16 * c' + d) @ s, rest))
                           (parse_string r')
                     | _ \<Rightarrow> None)
                | _ \<Rightarrow> None)
             else
               (case escape_char e of
                  None \<Rightarrow> None
                | Some ch \<Rightarrow> map_option (\<lambda>(s, rest). (ch # s, rest)) (parse_string r)))
      else if (of_char c :: nat) < 32 then None
      else map_option (\<lambda>(s, rest). (c # s, rest)) (parse_string cs))"

text \<open>A number literal: sign, integer part without leading zero, fraction, exponent.\<close>

definition parse_number :: "string \<Rightarrow> (rat \<times> string) option" where
  "parse_number s =
     (let (neg, s1) = (case s of c # r \<Rightarrow> if c = CHR ''-'' then (True, r) else (False, s) | [] \<Rightarrow> (False, s))
      in case s1 of
           [] \<Rightarrow> None
         | c # r \<Rightarrow>
             if \<not> is_digit c then None
             else
               let (ip, s2) = (if c = CHR ''0'' then ([c], r) else (takeWhile is_digit s1, dropWhile is_digit s1));
                   fr = (case s2 of
                           d # r2 \<Rightarrow>
                             if d = CHR ''.'' then
                               (if takeWhile is_digit r2 = [] then None
                                else Some (takeWhile is_digit r2, dropWhile is_digit r2))
                             else Some ([], s2)
                         | [] \<Rightarrow> Some ([], s2))
               in case fr of
                    None \<Rightarrow> None
                  | Some (fp, s3) \<Rightarrow>
                      let ex = (case s3 of
                                  e # r3 \<Rightarrow>
                                    if e = CHR ''e'' \<or> e = CHR ''E'' then
                                      (let (eneg, r4) = (case r3 of
                                                           g # r5 \<Rightarrow>
                                                             if g = CHR ''-'' then (True, r5)
                                                             else if g = CHR ''+'' then (False, r5)
                                                             else (False, r3)
                                                         | [] \<Rightarrow> (False, r3))
                                       in if takeWhile is_digit r4 = [] then None
                                          else Some ((if eneg then - int (nat_of_digits (takeWhile is_digit r4))
                                                      else int (nat_of_digits (takeWhile is_digit r4))),
                                                     dropWhile is_digit r4))
                                    else Some (0, s3)
                                | [] \<Rightarrow> Some (0, s3))
                      in case ex of
                           None \<Rightarrow> None
                         | Some (e, s4) \<Rightarrow>
                             let m = of_nat (nat_of_digits (ip @ fp));
                                 k = e - int (length fp);
                                 v = (if 0 \<le> k then m * 10 ^ nat k else m / 10 ^ nat (- k))
                             in Some (to_double (if neg then - v else v), s4))"

text \<open>
  Recursive descent over the text. The first argument bounds the nesting of calls;
  \<open>JSON_parse\<close> starts with twice the length of the text, which no text exhausts, as
  every second call consumes a character.
\<close>

fun parse_value :: "nat \<Rightarrow> string \<Rightarrow> (json \<times> string) option"
  and parse_elements :: "nat \<Rightarrow> string \<Rightarrow> (json list \<times> string) option"
  and parse_members :: "nat \<Rightarrow> string \<Rightarrow> ((string \<times> json) list \<times> string) option"
where
  "parse_value 0 s = None"
| "parse_value (Suc n) [] = None"
| "parse_value (Suc n) (c # cs) =
     (if c = CHR ''{'' then
        (case skip_ws cs of
           [] \<Rightarrow> None
         | d # ds \<Rightarrow>
             if d = CHR ''}'' then Some (JObj [], ds)
             else map_option (\<lambda>(ms, r). (JObj ms, r)) (parse_members n (d # ds)))
      else if c = CHR ''['' then
        (case skip_ws cs of
           [] \<Rightarrow> None
         | d # ds \<Rightarrow>
             if d = CHR '']'' then Some (JArr [], ds)
             else map_option (\<lambda>(vs, r). (JArr vs, r)) (parse_elements n (d # ds)))
      else if c = dquote then map_option (\<lambda>(s, r). (JStr s, r)) (parse_string cs)
      else if startsWith (c # cs) ''true'' then Some (JBool True, drop 4 (c # cs))
      else if startsWith (c # cs) ''false'' then Some (JBool False, drop 5 (c # cs))
      else if startsWith (c # cs) ''null'' then Some (JNull, drop 4 (c # cs))
      else if c = CHR ''-'' \<or> is_digit c then
        map_option (\<lambda>(q, r). (JNum q, r)) (parse_number (c # cs))
      else None)"
| "parse_elements 0 s = None"
| "parse_elements (Suc n) s =
     (case parse_value n s of
        None \<Rightarrow> None
      | Some (v, r) \<Rightarrow>
          (case skip_ws r of
             [] \<Rightarrow> None
           | d # ds \<Rightarrow>
               if d = CHR '','' then
                 map_option (\<lambda>(vs, r'). (v # vs, r')) (parse_elements n (skip_ws ds))
               else if d = CHR '']'' then Some ([v], ds)
               else None))"
| "parse_members 0 s = None"
| "parse_members (Suc n) s =
     (case s of
        [] \<Rightarrow> None
      | c # cs \<Rightarrow>
          if c \<noteq> dquote then None
          else
            (case parse_string cs of
               None \<Rightarrow> None
             | Some (k, r) \<Rightarrow>
                 (case skip_ws r of
                    [] \<Rightarrow> None
                  | d # ds \<Rightarrow>
                      if d \<noteq> CHR '':'' then None
                      else
                        (case parse_value n (skip_ws ds) of
                           None \<Rightarrow> None
                         | Some (v, r') \<Rightarrow>
                             (case skip_ws r' of
                                [] \<Rightarrow> None
                              | e # es \<Rightarrow>
                                  if e = CHR '','' then
                                    map_option (\<lambda>(ms, r''). ((k, v) # ms, r''))
                                      (parse_members n (skip_ws es))
                                  else if e = CHR ''}'' then Some ([(k, v)], es)
                                  else None)))))"

text \<open>\<^verbatim>\<open>JSON.parse\<close>: one value, white space around it, nothing else. \<open>None\<close> is the
  \<^verbatim>\<open>SyntaxError\<close>.\<close>

definition JSON_parse :: "string \<Rightarrow> json option" where
  "JSON_parse s =
     (case parse_value (2 * length s + 2) (skip_ws s) of
        None \<Rightarrow> None
      | Some (v, rest) \<Rightarrow> if skip_ws rest = [] then Some v else None)"


section \<open>Environment variables, paths and files\<close>

text \<open>\<^verbatim>\<open>process.env\<close>. \<open>getenv\<close> is the value of a variable when it is truthy (set and
  not empty), as the source reads it in \<^verbatim>\<open>a || b\<close> and \<^verbatim>\<open>if (a)\<close>; \<open>env_str\<close> is the
  variable inside a template string.\<close>

type_synonym environ = "string \<Rightarrow> string option"

definition getenv :: "environ \<Rightarrow> string \<Rightarrow> string option" where
  "getenv env k = (case env k of None \<Rightarrow> None | Some v \<Rightarrow> if v = [] then None else Some v)"

definition env_str :: "environ \<Rightarrow> string \<Rightarrow> string" where
  "env_str env k = (case env k of None \<Rightarrow> ''undefined'' | Some v \<Rightarrow> v)"

definition opt_or :: "'a option \<Rightarrow> 'a \<Rightarrow> 'a" where
  "opt_or a d = (case a of None \<Rightarrow> d | Some v \<Rightarrow> v)"

text \<open>\<^verbatim>\<open>process.env.CI_BUILDS_DIR || process.env.RUNNER_TEMP || "/tmp"\<close>\<close>

definition tempDir :: "environ \<Rightarrow> string" where
  "tempDir env = opt_or (getenv env ''CI_BUILDS_DIR'') (opt_or (getenv env ''RUNNER_TEMP'') ''/tmp'')"

text \<open>POSIX \<^verbatim>\<open>path.join\<close> and \<^verbatim>\<open>path.dirname\<close>.\<close>

fun join_with :: "string \<Rightarrow> string list \<Rightarrow> string" where
  "join_with sep [] = []"
| "join_with sep [x] = x"
| "join_with sep (x # y # ys) = x @ sep @ join_with sep (y # ys)"

fun normalize_segments :: "bool \<Rightarrow> string list \<Rightarrow> string list \<Rightarrow> string list" where
  "normalize_segments allow acc [] = rev acc"
| "normalize_segments allow acc (s # ss) =
     (if s = [] \<or> s = ''.'' then normalize_segments allow acc ss
      else if s = ''..'' then
        (case acc of
           a # as \<Rightarrow>
             if a = ''..'' then normalize_segments allow (s # acc) ss
             else normalize_segments allow as ss
         | [] \<Rightarrow>
             if allow then normalize_segments allow [s] ss
             else normalize_segments allow [] ss)
      else normalize_segments allow (s # acc) ss)"

definition path_normalize :: "string \<Rightarrow> string" where
  "path_normalize p =
     (if p = [] then ''.''
      else
        let isAbsolute = (hd p = CHR ''/'');
            trailingSeparator = (last p = CHR ''/'');
            q = join_with ''/'' (normalize_segments (\<not> isAbsolute) [] (split_on CHR ''/'' p))
        in if q = [] then (if isAbsolute then ''/'' else if trailingSeparator then ''./'' else ''.'')
           else let q' = (if trailingSeparator then q @ ''/'' else q)
                in if isAbsolute then CHR ''/'' # q' else q')"

definition path_join :: "string list \<Rightarrow> string" where
  "path_join parts =
     (let joined = join_with ''/'' (filter (\<lambda>a. a \<noteq> []) parts)
      in if joined = [] then ''.'' else path_normalize joined)"

definition path_dirname :: "string \<Rightarrow> string" where
  "path_dirname p =
     (case p of
        [] \<Rightarrow> ''.''
      | c # rest \<Rightarrow>
          (case dropWhile (\<lambda>x. x \<noteq> CHR ''/'') (dropWhile (\<lambda>x. x = CHR ''/'') (rev rest)) of
             [] \<Rightarrow> if c = CHR ''/'' then ''/'' else ''.''
           | x # r3 \<Rightarrow> if c = CHR ''/'' \<and> r3 = [] then ''//'' else c # rev r3))"

text \<open>A path of the file system: absent, present but failing to read, or present with
  its content.\<close>

datatype fstate = Missing | Unreadable | Content string

definition existsSync :: "(string \<Rightarrow> fstate) \<Rightarrow> string \<Rightarrow> bool" where
  "existsSync fs p = (fs p \<noteq> Missing)"

text \<open>
  The search loop shared by \<^verbatim>\<open>getExecutionDetails\<close> and \<^verbatim>\<open>postClaudeResponse\<close>:
  the first candidate that exists and reads ends the loop; a candidate that is missing,
  or exists and throws on reading, is passed over. The result is the content and the
  path found, both empty when the loop finds nothing.
\<close>

fun readFirstExisting :: "(string \<Rightarrow> fstate) \<Rightarrow> string list \<Rightarrow> string \<times> string" where
  "readFirstExisting fs [] = ([], [])"
| "readFirstExisting fs (p # ps) =
     (case fs p of
        Content c \<Rightarrow> (c, p)
      | Unreadable \<Rightarrow> readFirstExisting fs ps
      | Missing \<Rightarrow> readFirstExisting fs ps)"

section \<open>The comment updater script\<close>

subsection \<open>\<^verbatim>\<open>getExecutionDetails\<close>\<close>

record execution_details =
  cost_usd :: "json option"
  duration_ms :: "json option"

text \<open>The JSONL branch: blank lines and lines that do not parse are passed over.\<close>

fun parse_jsonl_lines :: "string list \<Rightarrow> json list" where
  "parse_jsonl_lines [] = []"
| "parse_jsonl_lines (line # ls) =
     (if trim line = [] then parse_jsonl_lines ls
      else (case JSON_parse line of
              Some obj \<Rightarrow> obj # parse_jsonl_lines ls
            | None \<Rightarrow> parse_jsonl_lines ls))"

text \<open>\<^verbatim>\<open>outputData\<close>: the whole content as one JSON value when it parses, otherwise
  the records of its lines.\<close>

definition parse_output_data :: "string \<Rightarrow> json" where
  "parse_output_data fileContent =
     (case JSON_parse fileContent of
        Some v \<Rightarrow> v
      | None \<Rightarrow> JArr (parse_jsonl_lines (split_lines (trim fileContent))))"

text \<open>\<^verbatim>\<open>outputData.find(msg => msg.type === "result")\<close> on the elements of an array.
  \<open>None\<close> is the \<^verbatim>\<open>TypeError\<close> of reading \<^verbatim>\<open>type\<close> from \<^verbatim>\<open>null\<close>.\<close>

fun find_result :: "json list \<Rightarrow> json option option" where
  "find_result [] = Some None"
| "find_result (msg # ms) =
     (if msg = JNull then None
      else if jprop ''type'' msg = Some (JStr ''result'') then Some (Some msg)
      else find_result ms)"

text \<open>Lines 57 to 85, from the content that was read. The outer \<^verbatim>\<open>try\<close> turns every
  exception (a value without \<^verbatim>\<open>find\<close>, a \<^verbatim>\<open>null\<close> element) into \<^verbatim>\<open>null\<close>.\<close>

definition details_from_content :: "string \<Rightarrow> execution_details option" where
  "details_from_content fileContent =
     (if fileContent = [] then None
      else
        (case parse_output_data fileContent of
           JArr outputData \<Rightarrow>
             (case find_result outputData of
                Some (Some result) \<Rightarrow>
                  if jhas ''cost_usd'' result \<and> jhas ''duration_ms'' result
                  then Some \<lparr>cost_usd = jprop ''cost_usd'' result,
                             duration_ms = jprop ''duration_ms'' result\<rparr>
                  else None
              | _ \<Rightarrow> None)
         | _ \<Rightarrow> None))"

definition getExecutionDetails ::
  "environ \<Rightarrow> (string \<Rightarrow> fstate) \<Rightarrow> string option \<Rightarrow> execution_details option" where
  "getExecutionDetails env fs outputFile =
     (case outputFile of
        None \<Rightarrow> None
      | Some f \<Rightarrow>
          if f = [] then None
          else
            details_from_content
              (fst (readFirstExisting fs
                 [f, path_join [tempDir env, ''claude-execution-output.json''],
                  path_join [tempDir env, ''output.txt'']])))"

subsection \<open>\<^verbatim>\<open>formatGitLabCommentBody\<close>\<close>









section \<open>The unified entrypoint\<close>

subsection \<open>Values, exceptions and the outside world\<close>

text \<open>A JavaScript number that \<^verbatim>\<open>parseInt\<close> returns: an integer or \<^verbatim>\<open>NaN\<close>.\<close>

datatype jsnumber = NaN | Number int

definition radix_digit :: "nat \<Rightarrow> char \<Rightarrow> nat option" where
  "radix_digit radix c =
     (case hex_val c of None \<Rightarrow> None | Some d \<Rightarrow> if d < radix then Some d else None)"

text \<open>\<^verbatim>\<open>parseInt(s)\<close> without a radix: leading white space, a sign, a \<^verbatim>\<open>0x\<close> prefix for
  base 16, then the longest run of digits; \<^verbatim>\<open>NaN\<close> when that run is empty.\<close>

definition parseInt :: "string \<Rightarrow> jsnumber" where
  "parseInt s =
     (let s1 = trimStart s;
          (neg, s2) = (case s1 of
                         c # r \<Rightarrow>
                           if c = CHR ''-'' then (True, r)
                           else if c = CHR ''+'' then (False, r)
                           else (False, s1)
                       | [] \<Rightarrow> (False, s1));
          (radix, s3) = (if startsWith s2 ''0x'' \<or> startsWith s2 ''0X'' then (16, drop 2 s2) else (10, s2));
          ds = takeWhile (\<lambda>c. radix_digit radix c \<noteq> None) s3;
          v = foldl (\<lambda>a c. radix * a + opt_or (radix_digit radix c) 0) 0 ds
      in if ds = [] then NaN else Number (if neg then - int v else int v))"

record PhaseResult =
  success :: bool
  error :: "string option"
  commentId :: "jsnumber option"
  outputFile :: "string option"

text \<open>\<^verbatim>\<open>if (result.commentId)\<close>: set, not \<^verbatim>\<open>NaN\<close> and not 0.\<close>

definition has_commentId :: "PhaseResult \<Rightarrow> bool" where
  "has_commentId r = (case commentId r of Some (Number n) \<Rightarrow> n \<noteq> 0 | _ \<Rightarrow> False)"

definition commentId_string :: "PhaseResult \<Rightarrow> string" where
  "commentId_string r = (case commentId r of Some (Number n) \<Rightarrow> show_int n | _ \<Rightarrow> ''NaN'')"

text \<open>What the source throws and catches: \<^verbatim>\<open>new Error(message)\<close>, and the
  \<^verbatim>\<open>ShellError\<close> of a shell command that exits with a code other than 0.\<close>

datatype exn = Error string | ShellError nat

fun exn_message :: "exn \<Rightarrow> string" where
  "exn_message (Error m) = m"
| "exn_message (ShellError n) = ''Failed with exit code '' @ show_nat n"

fun exn_string :: "exn \<Rightarrow> string" where
  "exn_string (Error m) = (if m = [] then ''Error'' else ''Error: '' @ m)"
| "exn_string (ShellError n) = ''ShellError: Failed with exit code '' @ show_nat n"

record shell_output =
  exitCode :: nat
  stdout :: string
  stderr :: string

text \<open>Every operation on the outside world that the entrypoint performs.\<close>

datatype call =
    BunRun string "(string \<times> string) list"
  | BunInstallGlobal string
  | BunInstallIn string
  | Chdir string
  | GitFetch string
  | GitCheckout string
  | GitCheckoutNew string
  | GitRevParseHead
  | GitRemoteGetUrl
  | FindDelete string bool
  | RmRf string
  | GitStatus string
  | GitConfig string string
  | GitAddAll
  | GitResetHead "string list"
  | GitCheckoutPaths "string list"
  | GitCommit string
  | GitRemoteSetUrl string
  | GitPush string string string string
  | CreateComment string

text \<open>
  The outside world of one run. It is deterministic in the history of operations
  performed so far: \<open>respond\<close> gives the result of an operation after a history,
  \<open>files\<close> the file system after it, \<open>now\<close> the clock. \<open>shell_throws\<close> says whether the
  shell raises \<^verbatim>\<open>ShellError\<close> on an exit code other than 0, which is Bun's default.
  \<open>claudePromptsDirectory\<close> and \<open>claudeExecutionOutputPath\<close> are the results of the two
  imported helpers of \<^verbatim>\<open>utils/temp-directory\<close>, \<open>script_dir\<close> is \<^verbatim>\<open>__dirname\<close>, and
  \<open>number_to_string\<close> is the conversion of a number inside a template string.
\<close>

record sys =
  env :: environ
  shell_throws :: bool
  respond :: "call list \<Rightarrow> call \<Rightarrow> shell_output"
  files :: "call list \<Rightarrow> string \<Rightarrow> fstate"
  now :: "call list \<Rightarrow> nat"
  script_dir :: string
  claudePromptsDirectory :: string
  claudeExecutionOutputPath :: string
  number_to_string :: "rat \<Rightarrow> string"

text \<open>A computation takes the history, and returns a value or an exception, and the
  history extended by what it performed.\<close>

type_synonym 'a io = "call list \<Rightarrow> (exn + 'a) \<times> call list"

definition ret :: "'a \<Rightarrow> 'a io" where
  "ret x h = (Inr x, h)"

definition throw :: "exn \<Rightarrow> 'a io" where
  "throw e h = (Inl e, h)"

definition bnd :: "'a io \<Rightarrow> ('a \<Rightarrow> 'b io) \<Rightarrow> 'b io" where
  "bnd m f h = (case m h of (Inl e, h') \<Rightarrow> (Inl e, h') | (Inr x, h') \<Rightarrow> f x h')"

definition seq :: "'a io \<Rightarrow> 'b io \<Rightarrow> 'b io" where
  "seq m k = bnd m (\<lambda>_. k)"

definition try_catch :: "'a io \<Rightarrow> (exn \<Rightarrow> 'a io) \<Rightarrow> 'a io" where
  "try_catch m handler h = (case m h of (Inl e, h') \<Rightarrow> handler e h' | (Inr x, h') \<Rightarrow> (Inr x, h'))"

text \<open>\<^verbatim>\<open>try { m } catch { }\<close>\<close>

definition ignore_errors :: "'a io \<Rightarrow> unit io" where
  "ignore_errors m = try_catch (seq m (ret ())) (\<lambda>_. ret ())"

text \<open>A shell command \<^verbatim>\<open>await $`...`\<close>: what it returns or throws after a history.\<close>

definition shell_result :: "sys \<Rightarrow> call list \<Rightarrow> call \<Rightarrow> exn + shell_output" where
  "shell_result S h c =
     (if shell_throws S \<and> exitCode (respond S h c) \<noteq> 0
      then Inl (ShellError (exitCode (respond S h c)))
      else Inr (respond S h c))"

definition sh :: "sys \<Rightarrow> call \<Rightarrow> shell_output io" where
  "sh S c h = (shell_result S h c, h @ [c])"

text \<open>A library call that throws when it fails (\<^verbatim>\<open>process.chdir\<close>, the provider's
  \<^verbatim>\<open>createComment\<close>); the message is what the world reports on \<open>stderr\<close>.\<close>

definition call_result :: "sys \<Rightarrow> call list \<Rightarrow> call \<Rightarrow> exn + unit" where
  "call_result S h c =
     (if exitCode (respond S h c) \<noteq> 0 then Inl (Error (stderr (respond S h c))) else Inr ())"

definition js_call :: "sys \<Rightarrow> call \<Rightarrow> unit io" where
  "js_call S c h = (call_result S h c, h @ [c])"

fun for_each :: "('a \<Rightarrow> unit io) \<Rightarrow> 'a list \<Rightarrow> unit io" where
  "for_each f [] = ret ()"
| "for_each f (x # xs) = seq (f x) (for_each f xs)"

subsection \<open>\<^verbatim>\<open>runPreparePhase\<close>\<close>

definition read_comment_id :: "(string \<Rightarrow> fstate) \<Rightarrow> jsnumber option" where
  "read_comment_id fs =
     (case fs ''/tmp/claude-comment-id.txt'' of
        Content c \<Rightarrow> if trim c = [] then None else Some (parseInt (trim c))
      | Unreadable \<Rightarrow> None
      | Missing \<Rightarrow> None)"

definition runPreparePhase :: "sys \<Rightarrow> call list \<Rightarrow> PhaseResult \<times> call list" where
  "runPreparePhase S h =
     (case sh S (BunRun (path_join [script_dir S, ''prepare.ts'']) []) h of
        (Inl e, h') \<Rightarrow>
          (\<lparr>success = False, error = Some (exn_message e), commentId = None, outputFile = None\<rparr>, h')
      | (Inr prepareResult, h') \<Rightarrow>
          if exitCode prepareResult \<noteq> 0 then
            (\<lparr>success = False,
              error = Some (if stderr prepareResult = [] then ''Prepare step failed'' else stderr prepareResult),
              commentId = None, outputFile = None\<rparr>, h')
          else if str_includes (stdout prepareResult) ''No trigger found'' then
            (\<lparr>success = False, error = Some ''No trigger found'', commentId = None, outputFile = None\<rparr>, h')
          else
            (\<lparr>success = True, error = None, commentId = read_comment_id (files S h'),
              outputFile = None\<rparr>, h'))"

subsection \<open>\<^verbatim>\<open>runExecutePhase\<close>\<close>

text \<open>Lines 366 to 401 of the source: the working branch is fetched and checked out,
  or created when either fails, and then compared with the branch git reports.\<close>

definition checkout_or_create :: "sys \<Rightarrow> string \<Rightarrow> unit io" where
  "checkout_or_create S claudeBranch =
     try_catch
       (seq (sh S (GitFetch claudeBranch)) (seq (sh S (GitCheckout claudeBranch)) (ret ())))
       (\<lambda>error.
          try_catch (seq (sh S (GitCheckoutNew claudeBranch)) (ret ()))
            (\<lambda>createError.
               throw (Error (''Failed to setup working branch: '' @ exn_string createError))))"

definition verify_branch :: "sys \<Rightarrow> string \<Rightarrow> unit io" where
  "verify_branch S claudeBranch =
     bnd (sh S GitRevParseHead) (\<lambda>currentBranchResult.
       if trim (stdout currentBranchResult) \<noteq> claudeBranch then
         throw (Error (''Branch checkout failed: expected '' @ claudeBranch @ '', got ''
                       @ trim (stdout currentBranchResult)))
       else ret ())"

definition setupWorkingBranch :: "sys \<Rightarrow> string \<Rightarrow> string \<Rightarrow> unit io" where
  "setupWorkingBranch S claudeBranch projectDir =
     seq (js_call S (Chdir projectDir))
       (seq (checkout_or_create S claudeBranch) (verify_branch S claudeBranch))"

definition baseActionPath :: "sys \<Rightarrow> string" where
  "baseActionPath S = path_join [path_dirname (script_dir S), ''..'', ''base-action'']"

definition promptPath :: "sys \<Rightarrow> string" where
  "promptPath S = claudePromptsDirectory S @ ''/claude-prompt.txt''"

definition base_action_env :: "sys \<Rightarrow> (string \<times> string) list" where
  "base_action_env S =
     [(''CLAUDE_CODE_ACTION'', ''1''),
      (''INPUT_PROMPT_FILE'', promptPath S),
      (''INPUT_TIMEOUT_MINUTES'', ''30''),
      (''INPUT_MCP_CONFIG'', []),
      (''INPUT_SETTINGS'', []),
      (''INPUT_SYSTEM_PROMPT'', []),
      (''INPUT_APPEND_SYSTEM_PROMPT'', []),
      (''INPUT_ALLOWED_TOOLS'', opt_or (getenv (env S) ''ALLOWED_TOOLS'') []),
      (''INPUT_DISALLOWED_TOOLS'', opt_or (getenv (env S) ''DISALLOWED_TOOLS'') []),
      (''INPUT_MAX_TURNS'', opt_or (getenv (env S) ''MAX_TURNS'') []),
      (''INPUT_CLAUDE_ENV'', opt_or (getenv (env S) ''CLAUDE_ENV'') []),
      (''INPUT_FALLBACK_MODEL'', opt_or (getenv (env S) ''FALLBACK_MODEL'') []),
      (''ANTHROPIC_MODEL'', opt_or (getenv (env S) ''CLAUDE_MODEL'') ''sonnet''),
      (''DETAILED_PERMISSION_MESSAGES'', ''1'')]"

definition jsonOutputFile :: "sys \<Rightarrow> string" where
  "jsonOutputFile S = path_join [tempDir (env S), ''claude-execution-output.json'']"

definition txtOutputFile :: "sys \<Rightarrow> string" where
  "txtOutputFile S = path_join [tempDir (env S), ''output.txt'']"

text \<open>Line 519: \<^verbatim>\<open>jsonExists ? outputFile : (txtExists ? outputTxtFile : outputFile)\<close>\<close>

definition actualOutputFile :: "sys \<Rightarrow> (string \<Rightarrow> fstate) \<Rightarrow> string" where
  "actualOutputFile S fs =
     (if existsSync fs (jsonOutputFile S) then jsonOutputFile S
      else if existsSync fs (txtOutputFile S) then txtOutputFile S
      else jsonOutputFile S)"

text \<open>The body of the \<^verbatim>\<open>try\<close> block. Reading the prompt file only logs, and is left out.\<close>

definition execute_body :: "sys \<Rightarrow> PhaseResult \<Rightarrow> PhaseResult io" where
  "execute_body S prepareResult =
     seq (case (getenv (env S) ''CLAUDE_BRANCH'', getenv (env S) ''CI_PROJECT_DIR'') of
            (Some claudeBranch, Some projectDir) \<Rightarrow> setupWorkingBranch S claudeBranch projectDir
          | _ \<Rightarrow> ret ())
    (bnd (sh S (BunInstallGlobal ''@anthropic-ai/claude-code@2.1.15'')) (\<lambda>installResult.
       if exitCode installResult \<noteq> 0 then
         throw (Error (''Failed to install Claude Code: '' @ stderr installResult))
       else
         bnd (sh S (BunInstallIn (baseActionPath S))) (\<lambda>depsResult.
           if exitCode depsResult \<noteq> 0 then
             throw (Error (''Failed to install base-action dependencies: '' @ stderr depsResult))
           else
             bnd (sh S (BunRun (path_join [baseActionPath S, ''src'', ''index.ts'']) (base_action_env S)))
               (\<lambda>executeResult h.
                  (Inr \<lparr>success = (exitCode executeResult = 0),
                        error = (if exitCode executeResult \<noteq> 0 then Some ''Claude execution failed'' else None),
                        commentId = commentId prepareResult,
                        outputFile = Some (actualOutputFile S (files S h))\<rparr>, h)))))"

definition runExecutePhase :: "sys \<Rightarrow> PhaseResult \<Rightarrow> call list \<Rightarrow> PhaseResult \<times> call list" where
  "runExecutePhase S prepareResult h =
     (case execute_body S prepareResult h of
        (Inr r, h') \<Rightarrow> (r, h')
      | (Inl e, h') \<Rightarrow>
          (\<lparr>success = False, error = Some (exn_message e), commentId = commentId prepareResult,
            outputFile = None\<rparr>, h'))"


subsection \<open>\<^verbatim>\<open>checkGitStatus\<close>\<close>

text \<open>\<^verbatim>\<open>expectedProject && !remoteUrl.includes(expectedProject)\<close>\<close>

definition wrong_repository :: "sys \<Rightarrow> string \<Rightarrow> bool" where
  "wrong_repository S remoteUrl =
     (case getenv (env S) ''CI_PROJECT_PATH'' of
        None \<Rightarrow> False
      | Some expectedProject \<Rightarrow> \<not> str_includes remoteUrl expectedProject)"

definition status_tempPatterns :: "string list" where
  "status_tempPatterns =
     [''*.log'', ''*.tmp'', ''output.txt'', ''.claude-*'', ''/tmp/claude-*'',
      ''node_modules/.cache'', ''.DS_Store'']"

definition status_tempDirs :: "string list" where
  "status_tempDirs = [''/tmp/claude-prompts'', ''/tmp/claude-output'', ''.claude'']"

text \<open>The predicate of \<^verbatim>\<open>lines.filter\<close> at lines 627 to 635: the line is kept.\<close>

definition status_line_kept :: "string \<Rightarrow> bool" where
  "status_line_kept line =
     (let file = trim (substring line 3)
      in \<not> str_includes file ''/tmp/'' \<and>
         \<not> str_includes file ''.claude'' \<and>
         \<not> endsWith file ''.log'' \<and>
         \<not> endsWith file ''.tmp'' \<and>
         \<not> str_includes file ''node_modules/.cache'')"

text \<open>Lines 618 to 648: what the classifier answers for the output of
  \<^verbatim>\<open>git status --porcelain\<close>.\<close>

definition has_real_changes :: "string \<Rightarrow> bool" where
  "has_real_changes status_stdout =
     (let changes = trim status_stdout
      in if changes \<noteq> [] then filter status_line_kept (split_lines changes) \<noteq> [] else False)"

definition checkGitStatus_body :: "sys \<Rightarrow> bool io" where
  "checkGitStatus_body S =
     (case getenv (env S) ''CI_PROJECT_DIR'' of
        None \<Rightarrow> ret False
      | Some projectDir \<Rightarrow>
          seq (js_call S (Chdir projectDir))
         (bnd (sh S GitRemoteGetUrl) (\<lambda>remoteResult.
            if wrong_repository S (trim (stdout remoteResult)) then ret False
            else
              seq (for_each (\<lambda>pattern. ignore_errors (sh S (FindDelete pattern False))) status_tempPatterns)
             (seq (for_each (\<lambda>dir. ignore_errors (sh S (RmRf dir))) status_tempDirs)
             (bnd (sh S (GitStatus ''--porcelain'')) (\<lambda>result.
                ret (has_real_changes (stdout result))))))))"

text \<open>The \<^verbatim>\<open>catch\<close> of the function answers \<^verbatim>\<open>false\<close> for every exception.\<close>

definition checkGitStatus :: "sys \<Rightarrow> call list \<Rightarrow> bool \<times> call list" where
  "checkGitStatus S h =
     (case checkGitStatus_body S h of
        (Inr b, h') \<Rightarrow> (b, h')
      | (Inl e, h') \<Rightarrow> (False, h'))"

subsection \<open>\<^verbatim>\<open>createMergeRequest\<close>\<close>

definition mr_tempPatterns :: "string list" where
  "mr_tempPatterns = [''*.log'', ''*.tmp'', ''output.txt'', ''.claude-*'', ''.DS_Store'']"

definition unstage_paths :: "string list" where
  "unstage_paths = [''*.log'', ''*.tmp'', ''output.txt'', ''.claude-*'', ''/tmp/*'']"

text \<open>The predicate of \<^verbatim>\<open>lines.filter\<close> at lines 765 to 771.\<close>

definition valid_file_line :: "string \<Rightarrow> bool" where
  "valid_file_line line =
     (let file = trim (substring line 3)
      in \<not> str_includes file ''/tmp/'' \<and>
         \<not> str_includes file ''.claude'' \<and>
         \<not> endsWith file ''.log'' \<and>
         \<not> endsWith file ''.tmp'')"

definition get_now :: "sys \<Rightarrow> nat io" where
  "get_now S h = (Inr (now S h), h)"

definition branchName :: "sys \<Rightarrow> nat \<Rightarrow> string" where
  "branchName S timestamp =
     opt_or (getenv (env S) ''CI_MERGE_REQUEST_SOURCE_BRANCH_NAME'')
       (''claude-'' @ env_str (env S) ''CLAUDE_RESOURCE_TYPE'' @ ''-''
        @ env_str (env S) ''CLAUDE_RESOURCE_ID'' @ ''-'' @ show_nat timestamp)"

definition commitMessage :: "sys \<Rightarrow> string" where
  "commitMessage S =
     ''fix: Apply Claude's suggestions for '' @ env_str (env S) ''CLAUDE_RESOURCE_TYPE'' @ '' #''
     @ env_str (env S) ''CLAUDE_RESOURCE_ID'' @ [CHR 0x0A, CHR 0x0A]
     @ ''This commit was automatically generated by Claude AI in response to a request.'' @ [CHR 0x0A]
     @ ''See the original '' @ env_str (env S) ''CLAUDE_RESOURCE_TYPE'' @ '' for context.''"

definition targetBranch :: "sys \<Rightarrow> string" where
  "targetBranch S =
     opt_or (getenv (env S) ''CLAUDE_BASE_BRANCH'') (opt_or (getenv (env S) ''CI_DEFAULT_BRANCH'') ''main'')"

definition mrTitle :: "sys \<Rightarrow> string" where
  "mrTitle S =
     ''Apply Claude's suggestions for '' @ env_str (env S) ''CLAUDE_RESOURCE_TYPE'' @ '' #''
     @ env_str (env S) ''CLAUDE_RESOURCE_ID''"

definition resourceUrl :: "sys \<Rightarrow> string" where
  "resourceUrl S =
     env_str (env S) ''CI_SERVER_URL'' @ ''/'' @ env_str (env S) ''CI_PROJECT_PATH'' @ ''/-/''
     @ (if env S ''CLAUDE_RESOURCE_TYPE'' = Some ''issue'' then ''issues'' else ''merge_requests'')
     @ ''/'' @ env_str (env S) ''CLAUDE_RESOURCE_ID''"

definition mrDescription :: "sys \<Rightarrow> string" where
  "mrDescription S =
     ''Automated MR by Claude AI. See '' @ resourceUrl S @ '' for context. /cc @''
     @ opt_or (getenv (env S) ''GITLAB_USER_LOGIN'') ''claude''"

definition gitRemoteUrl :: "sys \<Rightarrow> string" where
  "gitRemoteUrl S =
     ''https://''
     @ (if getenv (env S) ''CLAUDE_CODE_GL_ACCESS_TOKEN'' \<noteq> None then ''oauth2'' else ''gitlab-ci-token'')
     @ '':''
     @ (case getenv (env S) ''CLAUDE_CODE_GL_ACCESS_TOKEN'' of
          Some t \<Rightarrow> t
        | None \<Rightarrow> env_str (env S) ''CI_JOB_TOKEN'')
     @ ''@'' @ env_str (env S) ''CI_SERVER_HOST'' @ ''/'' @ env_str (env S) ''CI_PROJECT_PATH'' @ ''.git''"

text \<open>
  \<^verbatim>\<open>output.match(/https:\/\/[^\s]+\/merge_requests\/\d+/)\<close>: the leftmost match, the
  run of non-space characters as long as a match allows, then all the digits.
\<close>

definition mr_here :: "string \<Rightarrow> string option" where
  "mr_here s =
     (if startsWith s ''/merge_requests/'' \<and> takeWhile is_digit (drop 16 s) \<noteq> []
      then Some (''/merge_requests/'' @ takeWhile is_digit (drop 16 s)) else None)"

fun match_tail :: "string \<Rightarrow> string option" where
  "match_tail [] = None"
| "match_tail (c # cs) =
     (case (if is_space c then None else match_tail cs) of
        Some m \<Rightarrow> Some (c # m)
      | None \<Rightarrow> mr_here (c # cs))"

fun match_mr_url :: "string \<Rightarrow> string option" where
  "match_mr_url [] = None"
| "match_mr_url (c # cs) =
     (case (if startsWith (c # cs) ''https://'' then
              (case drop 8 (c # cs) of
                 [] \<Rightarrow> None
               | d # ds \<Rightarrow>
                   if is_space d then None
                   else map_option (\<lambda>m. ''https://'' @ d # m) (match_tail ds))
            else None) of
        Some m \<Rightarrow> Some m
      | None \<Rightarrow> match_mr_url cs)"

definition mr_comment :: "string \<Rightarrow> string" where
  "mr_comment url =
     [CHR 0xF0, CHR 0x9F, CHR 0x8E, CHR 0xAF] @ '' I've created a merge request with the changes: ''
     @ url @ [CHR 0x0A, CHR 0x0A] @ ''Please review and merge if the changes look good.''"

text \<open>Lines 740 to 839, entered once the first status is not empty.\<close>

definition stage_commit_push :: "sys \<Rightarrow> PhaseResult \<Rightarrow> string \<Rightarrow> unit io" where
  "stage_commit_push S prepareResult branch =
     seq (sh S GitAddAll)
    (seq (ignore_errors (seq (sh S (GitResetHead unstage_paths)) (sh S (GitCheckoutPaths unstage_paths))))
    (bnd (sh S (GitStatus ''--short'')) (\<lambda>statusResult.
       if trim (stdout statusResult) = [] then ret ()
       else if filter valid_file_line (split_lines (trim (stdout statusResult))) = [] then ret ()
       else
         seq (sh S (GitCommit (commitMessage S)))
        (seq (sh S (GitRemoteSetUrl (gitRemoteUrl S)))
        (bnd (sh S (GitPush (targetBranch S) (mrTitle S) (mrDescription S) branch)) (\<lambda>pushResult.
           case match_mr_url (stdout pushResult) of
             None \<Rightarrow> ret ()
           | Some url \<Rightarrow>
               if has_commentId prepareResult then js_call S (CreateComment (mr_comment url))
               else ret ()))))))"

text \<open>The \<^verbatim>\<open>catch\<close> of the function logs and throws the exception again.\<close>

definition createMergeRequest :: "sys \<Rightarrow> PhaseResult \<Rightarrow> unit io" where
  "createMergeRequest S prepareResult =
     (case getenv (env S) ''CI_PROJECT_DIR'' of
        None \<Rightarrow> throw (Error ''CI_PROJECT_DIR is not set!'')
      | Some projectDir \<Rightarrow>
          seq (js_call S (Chdir projectDir))
         (bnd (sh S GitRemoteGetUrl) (\<lambda>remoteResult.
            if wrong_repository S (trim (stdout remoteResult)) then
              throw (Error (''Wrong repository! Expected '' @ env_str (env S) ''CI_PROJECT_PATH''
                            @ '', but working in '' @ trim (stdout remoteResult)))
            else
              seq (for_each (\<lambda>pattern. ignore_errors (sh S (FindDelete pattern True))) mr_tempPatterns)
             (bnd (sh S GitRevParseHead) (\<lambda>currentBranchResult.
              bnd (get_now S) (\<lambda>timestamp.
                seq (sh S (GitConfig ''user.name'' ''Claude[bot]''))
               (seq (sh S (GitConfig ''user.email'' ''claude-bot@noreply.gitlab.com''))
               (seq (if trim (stdout currentBranchResult) \<noteq> branchName S timestamp
                     then seq (sh S (GitCheckoutNew (branchName S timestamp))) (ret ())
                     else ret ())
               (bnd (sh S (GitStatus ''--porcelain'')) (\<lambda>statusBeforeResult.
                  if trim (stdout statusBeforeResult) = [] then ret ()
                  else stage_commit_push S prepareResult (branchName S timestamp)))))))))))"

subsection \<open>\<^verbatim>\<open>postClaudeResponse\<close>\<close>

text \<open>A value inside a template string or appended to a string; \<open>None\<close> is
  \<^verbatim>\<open>undefined\<close>.\<close>

fun js_string :: "(rat \<Rightarrow> string) \<Rightarrow> json \<Rightarrow> string" where
  "js_string nts JNull = ''null''"
| "js_string nts (JBool b) = (if b then ''true'' else ''false'')"
| "js_string nts (JNum q) = nts q"
| "js_string nts (JStr s) = s"
| "js_string nts (JArr vs) = join_with '','' (map (\<lambda>v. if v = JNull then [] else js_string nts v) vs)"
| "js_string nts (JObj ms) = ''[object Object]''"

definition js_string_opt :: "(rat \<Rightarrow> string) \<Rightarrow> json option \<Rightarrow> string" where
  "js_string_opt nts v = (case v of None \<Rightarrow> ''undefined'' | Some x \<Rightarrow> js_string nts x)"

text \<open>The inner loop over \<^verbatim>\<open>output.message.content\<close>: the text of the parts of type
  \<^verbatim>\<open>text\<close>, a line feed after each. \<open>None\<close> is the \<^verbatim>\<open>TypeError\<close> of a \<^verbatim>\<open>null\<close> part.\<close>

fun collect_text :: "(rat \<Rightarrow> string) \<Rightarrow> json list \<Rightarrow> string option" where
  "collect_text nts [] = Some []"
| "collect_text nts (content # cs) =
     (if content = JNull then None
      else
        (case collect_text nts cs of
           None \<Rightarrow> None
         | Some rest \<Rightarrow>
             if jprop ''type'' content = Some (JStr ''text'')
             then Some (js_string_opt nts (jprop ''text'' content) @ [CHR 0x0A] @ rest)
             else Some rest))"

text \<open>What one parsed line does to \<^verbatim>\<open>claudeMessage\<close>.\<close>

datatype line_effect = Thrown | BreakWith json | SetTo json | NoChange

definition assistant_effect :: "(rat \<Rightarrow> string) \<Rightarrow> json \<Rightarrow> line_effect" where
  "assistant_effect nts out =
     (case jprop ''message'' out of
        None \<Rightarrow> NoChange
      | Some message \<Rightarrow>
          if message = JNull then NoChange
          else
            (case jprop ''content'' message of
               None \<Rightarrow> NoChange
             | Some content \<Rightarrow>
                 if \<not> truthy content then NoChange
                 else
                   (case content of
                      JArr cs \<Rightarrow>
                        (case collect_text nts cs of
                           None \<Rightarrow> Thrown
                         | Some tempMessage \<Rightarrow>
                             if tempMessage = [] then NoChange else SetTo (JStr (trim tempMessage)))
                    | JStr s \<Rightarrow> NoChange
                    | _ \<Rightarrow> Thrown)))"

definition record_effect :: "(rat \<Rightarrow> string) \<Rightarrow> json \<Rightarrow> line_effect" where
  "record_effect nts out =
     (if out = JNull then Thrown
      else
        (case (if jprop ''type'' out = Some (JStr ''result'') then jprop ''result'' out else None) of
           Some r \<Rightarrow>
             if truthy r then BreakWith r
             else if jprop ''type'' out = Some (JStr ''assistant'') then assistant_effect nts out
             else NoChange
         | None \<Rightarrow>
             if jprop ''type'' out = Some (JStr ''assistant'') then assistant_effect nts out
             else NoChange))"

text \<open>The loop at lines 896 to 930, from the current \<^verbatim>\<open>claudeMessage\<close>.\<close>

fun extract_message :: "(rat \<Rightarrow> string) \<Rightarrow> json \<Rightarrow> string list \<Rightarrow> json" where
  "extract_message nts claudeMessage [] = claudeMessage"
| "extract_message nts claudeMessage (line # ls) =
     (if trim line = [] then extract_message nts claudeMessage ls
      else
        (case (case JSON_parse line of None \<Rightarrow> Thrown | Some out \<Rightarrow> record_effect nts out) of
           BreakWith r \<Rightarrow> r
         | SetTo m \<Rightarrow> extract_message nts m ls
         | NoChange \<Rightarrow> extract_message nts claudeMessage ls
         | Thrown \<Rightarrow>
             if \<not> truthy claudeMessage \<and> 50 < length (trim line)
             then extract_message nts (JStr (trim line)) ls
             else extract_message nts claudeMessage ls))"

definition possibleOutputFiles :: "sys \<Rightarrow> PhaseResult \<Rightarrow> string list" where
  "possibleOutputFiles S executeResult =
     filter (\<lambda>f. f \<noteq> [])
       [opt_or (outputFile executeResult) [], jsonOutputFile S, txtOutputFile S,
        claudeExecutionOutputPath S]"

definition response_comment :: "string \<Rightarrow> string" where
  "response_comment claudeMessage =
     ''## '' @ [CHR 0xF0, CHR 0x9F, CHR 0xA4, CHR 0x96] @ '' Claude's Response'' @ [CHR 0x0A, CHR 0x0A]
     @ claudeMessage @ [CHR 0x0A, CHR 0x0A] @ ''---'' @ [CHR 0x0A]
     @ ''*This response was generated by Claude AI. No code changes were made.*''"

text \<open>The message the poster extracts from a transcript.\<close>

definition claude_message :: "sys \<Rightarrow> string \<Rightarrow> json" where
  "claude_message S outputContent =
     extract_message (number_to_string S) (JStr []) (split_lines (trim outputContent))"

text \<open>The function never throws: its \<^verbatim>\<open>catch\<close> only logs.\<close>

definition postClaudeResponse :: "sys \<Rightarrow> PhaseResult \<Rightarrow> unit io" where
  "postClaudeResponse S executeResult =
     try_catch
       (\<lambda>h. let outputContent = fst (readFirstExisting (files S h) (possibleOutputFiles S executeResult))
            in if outputContent = [] then ret () h
               else if \<not> truthy (claude_message S outputContent) then ret () h
               else js_call S (CreateComment (response_comment
                      (js_string (number_to_string S) (claude_message S outputContent)))) h)
       (\<lambda>error. ret ())"

subsection \<open>\<^verbatim>\<open>runUpdatePhase\<close>\<close>

text \<open>Lines 993 to 1005.\<close>

definition update_outputFile :: "sys \<Rightarrow> PhaseResult \<Rightarrow> (string \<Rightarrow> fstate) \<Rightarrow> string" where
  "update_outputFile S executeResult fs =
     (if opt_or (outputFile executeResult) [] \<noteq> [] then opt_or (outputFile executeResult) []
      else if existsSync fs (jsonOutputFile S) then jsonOutputFile S
      else if existsSync fs (txtOutputFile S) then txtOutputFile S
      else jsonOutputFile S)"

definition update_env :: "sys \<Rightarrow> PhaseResult \<Rightarrow> PhaseResult \<Rightarrow> (string \<Rightarrow> fstate) \<Rightarrow> (string \<times> string) list" where
  "update_env S prepareResult executeResult fs =
     [(''CLAUDE_COMMENT_ID'', commentId_string prepareResult),
      (''CLAUDE_SUCCESS'', if success executeResult then ''true'' else ''false''),
      (''PREPARE_SUCCESS'', if success prepareResult then ''true'' else ''false''),
      (''OUTPUT_FILE'', update_outputFile S executeResult fs)]
     @ (case getenv (env S) ''CLAUDE_RESOURCE_ID'' of
          None \<Rightarrow> []
        | Some resourceId \<Rightarrow>
            (if env S ''CLAUDE_RESOURCE_TYPE'' = Some ''issue'' then [(''CI_ISSUE_IID'', resourceId)] else [])
            @ (if env S ''CLAUDE_RESOURCE_TYPE'' = Some ''merge_request''
               then [(''CI_MERGE_REQUEST_IID'', resourceId)] else []))"

text \<open>Lines 976 to 1067.\<close>

definition update_tracking_comment :: "sys \<Rightarrow> PhaseResult \<Rightarrow> PhaseResult \<Rightarrow> PhaseResult io" where
  "update_tracking_comment S prepareResult executeResult =
     (if \<not> has_commentId prepareResult then
        ret \<lparr>success = True, error = None, commentId = None, outputFile = None\<rparr>
      else
        bnd (\<lambda>h. sh S (BunRun (path_join [script_dir S, ''update-comment-gitlab.ts''])
                         (update_env S prepareResult executeResult (files S h))) h)
          (\<lambda>updateResult.
             if exitCode updateResult \<noteq> 0 then
               ret \<lparr>success = False, error = Some ''Failed to update comment (non-critical)'',
                    commentId = None, outputFile = None\<rparr>
             else ret \<lparr>success = True, error = None, commentId = None, outputFile = None\<rparr>))"

definition update_body :: "sys \<Rightarrow> PhaseResult \<Rightarrow> PhaseResult \<Rightarrow> PhaseResult io" where
  "update_body S prepareResult executeResult =
     bnd (\<lambda>h. case checkGitStatus S h of (b, h') \<Rightarrow> (Inr b, h')) (\<lambda>hasChanges.
     seq (if hasChanges then createMergeRequest S prepareResult
          else postClaudeResponse S executeResult)
       (update_tracking_comment S prepareResult executeResult))"

definition runUpdatePhase ::
  "sys \<Rightarrow> PhaseResult \<Rightarrow> PhaseResult \<Rightarrow> call list \<Rightarrow> PhaseResult \<times> call list" where
  "runUpdatePhase S prepareResult executeResult h =
     (case update_body S prepareResult executeResult h of
        (Inr r, h') \<Rightarrow> (r, h')
      | (Inl e, h') \<Rightarrow>
          (\<lparr>success = False, error = Some (exn_message e), commentId = None, outputFile = None\<rparr>, h'))"

subsection \<open>\<^verbatim>\<open>main\<close>\<close>

text \<open>The exit code of the process and everything it performed. The run starts with an
  empty history.\<close>

definition initial_result :: PhaseResult where
  "initial_result = \<lparr>success = False, error = None, commentId = None, outputFile = None\<rparr>"

definition main :: "sys \<Rightarrow> nat \<times> call list" where
  "main S =
     (case runPreparePhase S [] of
        (prepareResult, h1) \<Rightarrow>
          if \<not> success prepareResult then
            (if error prepareResult = Some ''No trigger found'' then (0, h1)
             else if has_commentId prepareResult
                  then (1, snd (runUpdatePhase S prepareResult initial_result h1))
                  else (1, h1))
          else
            (case runExecutePhase S prepareResult h1 of
               (executeResult, h2) \<Rightarrow>
                 (case runUpdatePhase S prepareResult executeResult h2 of
                    (updateResult, h3) \<Rightarrow> (if success executeResult then 0 else 1, h3))))"


subsection \<open>What a computation performs\<close>

text \<open>\<open>performs P m\<close>: from every history, \<open>m\<close> only appends operations, and each of them
  satisfies \<open>P\<close>.\<close>

definition performs :: "(call \<Rightarrow> bool) \<Rightarrow> 'a io \<Rightarrow> bool" where
  "performs P m = (\<forall>h. \<exists>new. snd (m h) = h @ new \<and> list_all P new)"

text \<open>The operation runs a script with \<^verbatim>\<open>bun run\<close>.\<close>

definition is_script_run :: "call \<Rightarrow> bool" where
  "is_script_run c = (case c of BunRun script e \<Rightarrow> True | _ \<Rightarrow> False)"

section \<open>Example worlds\<close>

text \<open>Concrete worlds on which the entrypoint is run in the examples below.\<close>

definition ok :: "string \<Rightarrow> shell_output" where
  "ok s = \<lparr>exitCode = 0, stdout = s, stderr = []\<rparr>"

definition failed :: "nat \<Rightarrow> string \<Rightarrow> shell_output" where
  "failed n s = \<lparr>exitCode = n, stdout = [], stderr = s\<rparr>"

definition demo_env :: environ where
  "demo_env k =
     (if k = ''CI_PROJECT_DIR'' then Some ''/builds/group/app''
      else if k = ''CI_PROJECT_PATH'' then Some ''group/app''
      else if k = ''CLAUDE_BRANCH'' then Some ''claude-issue-7''
      else if k = ''CLAUDE_RESOURCE_TYPE'' then Some ''issue''
      else if k = ''CLAUDE_RESOURCE_ID'' then Some ''7''
      else None)"

text \<open>Bun's default shell, the scripts under \<^verbatim>\<open>/app/src/entrypoints\<close>, a fixed clock;
  numbers inside template strings do not occur in the examples.\<close>

definition demo_sys :: "(call list \<Rightarrow> call \<Rightarrow> shell_output) \<Rightarrow> (call list \<Rightarrow> string \<Rightarrow> fstate) \<Rightarrow> sys" where
  "demo_sys r f =
     \<lparr>env = demo_env, shell_throws = True, respond = r, files = f,
      now = (\<lambda>h. 1700000000000),
      script_dir = ''/app/src/entrypoints'',
      claudePromptsDirectory = ''/tmp/claude-prompts'',
      claudeExecutionOutputPath = ''/tmp/claude-execution-output.json'',
      number_to_string = (\<lambda>q. show_int \<lfloor>q\<rfloor>)\<rparr>"

definition remote_ok :: shell_output where
  "remote_ok = ok (''https://gitlab.example.com/group/app.git'' @ [CHR 0x0A])"

text \<open>The tracking comment 42 exists; the assistant run exits with code 1.\<close>

definition respond_exec_fails :: "call list \<Rightarrow> call \<Rightarrow> shell_output" where
  "respond_exec_fails h c =
     (case c of
        BunRun script e \<Rightarrow>
          if script = ''/app/base-action/src/index.ts'' then failed 1 ''boom'' else ok []
      | GitRevParseHead \<Rightarrow> ok (''claude-issue-7'' @ [CHR 0x0A])
      | GitRemoteGetUrl \<Rightarrow> remote_ok
      | _ \<Rightarrow> ok [])"

definition files_comment_id :: "call list \<Rightarrow> string \<Rightarrow> fstate" where
  "files_comment_id h p =
     (if p = ''/tmp/claude-comment-id.txt'' then Content (''42'' @ [CHR 0x0A]) else Missing)"

definition world_exec_fails :: sys where
  "world_exec_fails = demo_sys respond_exec_fails files_comment_id"

definition prepared_42 :: PhaseResult where
  "prepared_42 = \<lparr>success = True, error = None, commentId = Some (Number 42), outputFile = None\<rparr>"

definition prepared_no_comment :: PhaseResult where
  "prepared_no_comment = \<lparr>success = True, error = None, commentId = None, outputFile = None\<rparr>"

text \<open>The status of the working tree after the cleanup lists \<^verbatim>\<open>output.txt\<close> and a file
  under \<^verbatim>\<open>/tmp\<close>, both untracked.\<close>

definition status_output_txt :: string where
  "status_output_txt = ''?? output.txt'' @ [CHR 0x0A] @ ''?? /tmp/claude-output/x.json''"

definition respond_output_txt :: "call list \<Rightarrow> call \<Rightarrow> shell_output" where
  "respond_output_txt h c =
     (case c of
        GitRevParseHead \<Rightarrow> ok (''claude-issue-7'' @ [CHR 0x0A])
      | GitRemoteGetUrl \<Rightarrow> remote_ok
      | GitStatus a \<Rightarrow> ok (status_output_txt @ [CHR 0x0A])
      | _ \<Rightarrow> ok [])"

definition world_output_txt :: sys where
  "world_output_txt = demo_sys respond_output_txt (\<lambda>h p. Missing)"

text \<open>
  The project has a submodule \<^verbatim>\<open>vendor/lib\<close> whose files the assistant has modified,
  and no other change. Git lists the submodule with a blank index column and the mark
  \<^verbatim>\<open>m\<close> for modified content, before and after \<^verbatim>\<open>git add -A\<close>, which does not stage
  what is inside a submodule. It refuses the reset, one of whose paths, \<^verbatim>\<open>/tmp/*\<close>, is
  outside the repository, and \<^verbatim>\<open>git commit\<close> finds nothing staged and exits with code 1.
\<close>

definition status_dirty_submodule :: string where
  "status_dirty_submodule = '' m vendor/lib'' @ [CHR 0x0A]"

definition respond_dirty_submodule :: "call list \<Rightarrow> call \<Rightarrow> shell_output" where
  "respond_dirty_submodule h c =
     (case c of
        GitRevParseHead \<Rightarrow> ok (''claude-issue-7'' @ [CHR 0x0A])
      | GitRemoteGetUrl \<Rightarrow> remote_ok
      | GitStatus a \<Rightarrow> ok status_dirty_submodule
      | GitResetHead ps \<Rightarrow> failed 128 ''fatal: /tmp/*: '/tmp/*' is outside repository''
      | GitCommit m \<Rightarrow> failed 1 ''no changes added to commit''
      | _ \<Rightarrow> ok [])"

definition world_dirty_submodule :: sys where
  "world_dirty_submodule = demo_sys respond_dirty_submodule (\<lambda>h p. Missing)"

text \<open>A line of the status, as git prints it, names a staged change when its first
  column, the state of the index, is neither blank nor one of the marks of an untracked
  or ignored path.\<close>

definition staged_line :: "string \<Rightarrow> bool" where
  "staged_line line =
     (case line of
        [] \<Rightarrow> False
      | x # r \<Rightarrow> x \<noteq> CHR '' '' \<and> x \<noteq> CHR ''?'' \<and> x \<noteq> CHR ''!'')"

text \<open>
  A repository with branches, for the three git commands on branches, as git documents
  them: \<^verbatim>\<open>git fetch origin b:b\<close> fails when the remote has no branch \<open>b\<close> and refuses
  to fetch into the branch that is checked out; \<^verbatim>\<open>git checkout b\<close> needs the local
  branch \<open>b\<close>; \<^verbatim>\<open>git checkout -b b\<close> fails when the local branch \<open>b\<close> exists already.
\<close>

record git_repo =
  local_branches :: "string list"
  remote_branches :: "string list"
  current_branch :: string

definition git_exec :: "git_repo \<Rightarrow> call \<Rightarrow> nat \<times> git_repo" where
  "git_exec g c =
     (case c of
        GitFetch b \<Rightarrow>
          if b \<in> set (remote_branches g) \<and> b \<noteq> current_branch g
          then (0, g\<lparr>local_branches := b # local_branches g\<rparr>)
          else (128, g)
      | GitCheckout b \<Rightarrow>
          if b \<in> set (local_branches g) then (0, g\<lparr>current_branch := b\<rparr>) else (1, g)
      | GitCheckoutNew b \<Rightarrow>
          if b \<in> set (local_branches g) then (128, g)
          else (0, g\<lparr>local_branches := b # local_branches g, current_branch := b\<rparr>)
      | _ \<Rightarrow> (0, g))"

definition git_after :: "git_repo \<Rightarrow> call list \<Rightarrow> git_repo" where
  "git_after g h = foldl (\<lambda>g' c. snd (git_exec g' c)) g h"

definition respond_git :: "git_repo \<Rightarrow> call list \<Rightarrow> call \<Rightarrow> shell_output" where
  "respond_git g h c =
     (case c of
        GitRevParseHead \<Rightarrow> ok (current_branch (git_after g h) @ [CHR 0x0A])
      | GitRemoteGetUrl \<Rightarrow> remote_ok
      | _ \<Rightarrow> \<lparr>exitCode = fst (git_exec (git_after g h) c), stdout = [], stderr = []\<rparr>)"

definition repo_on_main :: git_repo where
  "repo_on_main =
     \<lparr>local_branches = [''main''], remote_branches = [''main'', ''claude-issue-7''],
      current_branch = ''main''\<rparr>"

definition world_git :: sys where
  "world_git = demo_sys (respond_git repo_on_main) (\<lambda>h p. Missing)"

text \<open>The checkout is a clone of another project.\<close>

definition remote_other :: shell_output where
  "remote_other = ok (''https://gitlab.example.com/other/project.git'' @ [CHR 0x0A])"

definition respond_wrong_repo :: "call list \<Rightarrow> call \<Rightarrow> shell_output" where
  "respond_wrong_repo h c =
     (case c of
        GitRemoteGetUrl \<Rightarrow> remote_other
      | _ \<Rightarrow> ok [])"

definition world_wrong_repo :: sys where
  "world_wrong_repo = demo_sys respond_wrong_repo (\<lambda>h p. Missing)"

text \<open>A new source file is the only change, and the origin of the checkout is another
  project from the moment the classifier has read the status.\<close>

definition respond_remote_changes :: "call list \<Rightarrow> call \<Rightarrow> shell_output" where
  "respond_remote_changes h c =
     (case c of
        GitRemoteGetUrl \<Rightarrow>
          if GitStatus ''--porcelain'' \<in> set h then remote_other else remote_ok
      | GitStatus a \<Rightarrow> ok (''?? src/new.ts'' @ [CHR 0x0A])
      | _ \<Rightarrow> ok [])"

definition world_remote_changes :: sys where
  "world_remote_changes = demo_sys respond_remote_changes (\<lambda>h p. Missing)"



text \<open>The transcript of the scenario: a result record, then an assistant record.\<close>

definition quoted :: "string \<Rightarrow> string" where
  "quoted s = dquote # s @ [dquote]"

definition scenario_line1 :: string where
  "scenario_line1 =
     ''{'' @ quoted ''type'' @ '':'' @ quoted ''result'' @ '','' @ quoted ''result'' @ '':''
     @ quoted ''Done.'' @ '','' @ quoted ''cost_usd'' @ '':0.02,'' @ quoted ''duration_ms'' @ '':1500}''"

definition scenario_line2 :: string where
  "scenario_line2 =
     ''{'' @ quoted ''type'' @ '':'' @ quoted ''assistant'' @ '','' @ quoted ''message'' @ '':{''
     @ quoted ''content'' @ '':[{'' @ quoted ''type'' @ '':'' @ quoted ''text'' @ '','' @ quoted ''text''
     @ '':'' @ quoted ''ignored'' @ ''}]}}''"

definition scenario_transcript :: string where
  "scenario_transcript = scenario_line1 @ [CHR 0x0A] @ scenario_line2"

text \<open>File systems: only \<^verbatim>\<open>output.txt\<close> of the temporary directory exists; both files
  exist and can be read; both files exist and the JSON file fails to read.\<close>

definition fs_txt_only :: "string \<Rightarrow> fstate" where
  "fs_txt_only p =
     (if p = ''/tmp/output.txt'' then Content scenario_transcript
      else Missing)"

definition fs_both :: "string \<Rightarrow> fstate" where
  "fs_both p =
     (if p = ''/tmp/claude-execution-output.json'' then Content ''[]''
      else if p = ''/tmp/output.txt'' then Content scenario_transcript
      else Missing)"

definition fs_json_unreadable :: "string \<Rightarrow> fstate" where
  "fs_json_unreadable p =
     (if p = ''/tmp/claude-execution-output.json'' then Unreadable
      else if p = ''/tmp/output.txt'' then Content scenario_transcript
      else Missing)"

text \<open>Every command succeeds, the working branch is checked out, and the assistant leaves
  the two files, of which the JSON file fails to read.\<close>

definition respond_all_ok :: "call list \<Rightarrow> call \<Rightarrow> shell_output" where
  "respond_all_ok h c =
     (case c of
        GitRevParseHead \<Rightarrow> ok (''claude-issue-7'' @ [CHR 0x0A])
      | GitRemoteGetUrl \<Rightarrow> remote_ok
      | _ \<Rightarrow> ok [])"

definition world_json_unreadable :: sys where
  "world_json_unreadable = demo_sys respond_all_ok (\<lambda>h. fs_json_unreadable)"

section \<open>Evaluation\<close>

lemmas str_defs =
  trim_def trimStart_def is_space_def split_lines_def substring_def endsWith_def
  digit_char_def show_int_def is_digit_def digit_val_def nat_of_digits_def

lemmas path_defs =
  path_join_def path_normalize_def path_dirname_def tempDir_def getenv_def env_str_def opt_or_def

lemmas io_defs =
  ret_def throw_def bnd_def seq_def try_catch_def ignore_errors_def shell_result_def sh_def
  call_result_def js_call_def get_now_def

lemmas prepare_defs =
  runPreparePhase_def read_comment_id_def parseInt_def radix_digit_def hex_val_def

lemmas execute_defs =
  checkout_or_create_def verify_branch_def setupWorkingBranch_def baseActionPath_def promptPath_def base_action_env_def jsonOutputFile_def
  txtOutputFile_def actualOutputFile_def execute_body_def runExecutePhase_def existsSync_def

lemmas status_defs =
  wrong_repository_def status_tempPatterns_def status_tempDirs_def status_line_kept_def
  has_real_changes_def checkGitStatus_body_def checkGitStatus_def

lemmas submit_defs =
  wrong_repository_def mr_tempPatterns_def unstage_paths_def valid_file_line_def branchName_def
  commitMessage_def targetBranch_def mrTitle_def resourceUrl_def mrDescription_def gitRemoteUrl_def
  mr_here_def mr_comment_def stage_commit_push_def createMergeRequest_def

lemmas update_defs =
  possibleOutputFiles_def response_comment_def claude_message_def postClaudeResponse_def
  update_outputFile_def update_env_def update_tracking_comment_def update_body_def runUpdatePhase_def
  initial_result_def
  has_commentId_def commentId_string_def

lemmas demo_defs =
  ok_def failed_def demo_env_def demo_sys_def remote_ok_def prepared_42_def prepared_no_comment_def

lemmas json_defs =
  JSON_parse_def skip_ws_def is_json_ws_def dquote_def backslash_def escape_char_def
  parse_number_def is_digit_def nat_of_digits_def digit_val_def hex_val_def utf8_encode_def quoted_def

section \<open>The exit code of the entrypoint\<close>

lemma runPreparePhase_error_not_success:
  "runPreparePhase S h = (p, h1) \<Longrightarrow> error p \<noteq> None \<Longrightarrow> \<not> success p"
  by (auto simp: runPreparePhase_def Let_def split: prod.splits sum.splits if_splits)

lemma runPreparePhase_history:
  "snd (runPreparePhase S h) = h @ [BunRun (path_join [script_dir S, ''prepare.ts'']) []]"
  by (auto simp: runPreparePhase_def sh_def Let_def split: prod.splits sum.splits if_splits)

text \<open>
  C1. Let the prepare phase return \<open>p\<close>. If \<open>p\<close> is the result "No trigger found", the
  process exits with code 0 and has performed nothing but the prepare script: neither
  the execute nor the update phase has run. If \<open>p\<close> is a success and the execute phase
  returns \<open>e\<close>, the update phase is run after it, in the world the execute phase left, and
  the exit code is 0 when \<open>e\<close> is a success and 1 when it is not, whatever the update
  phase returns.
\<close>

theorem main_exit_code:
  assumes "runPreparePhase S [] = (p, h1)"
  shows "(error p = Some ''No trigger found'' \<longrightarrow>
            main S = (0, [BunRun (path_join [script_dir S, ''prepare.ts'']) []])) \<and>
         (success p \<longrightarrow>
            (\<forall>e h2. runExecutePhase S p h1 = (e, h2) \<longrightarrow>
               main S = ((if success e then 0 else 1), snd (runUpdatePhase S p e h2))))"
proof -
  have h1: "h1 = [BunRun (path_join [script_dir S, ''prepare.ts'']) []]"
    using runPreparePhase_history [of S "[]"] assms by simp
  have a: "error p = Some ''No trigger found'' \<Longrightarrow> \<not> success p"
    using runPreparePhase_error_not_success [OF assms] by simp
  show ?thesis
    using assms a h1 by (auto simp: main_def split: prod.splits)
qed

lemma world_exec_fails_prepare:
  "runPreparePhase world_exec_fails [] = (prepared_42, [BunRun ''/app/src/entrypoints/prepare.ts'' []])"
  by (simp add: world_exec_fails_def respond_exec_fails_def files_comment_id_def
        str_defs path_defs io_defs prepare_defs demo_defs Let_def)

lemma world_exec_fails_execute:
  "fst (runExecutePhase world_exec_fails prepared_42 [BunRun ''/app/src/entrypoints/prepare.ts'' []]) =
     \<lparr>success = False, error = Some ''Failed with exit code 1'', commentId = Some (Number 42),
      outputFile = None\<rparr>"
  by (simp add: world_exec_fails_def respond_exec_fails_def files_comment_id_def
        str_defs path_defs io_defs execute_defs demo_defs Let_def)

text \<open>The run in which the assistant exits with code 1: the exit code is 1, and the last
  thing the run performs is the comment updater script.\<close>

theorem main_exit_code_witness:
  "runPreparePhase world_exec_fails [] = (prepared_42, [BunRun ''/app/src/entrypoints/prepare.ts'' []]) \<and>
   success prepared_42 \<and>
   \<not> success (fst (runExecutePhase world_exec_fails prepared_42 [BunRun ''/app/src/entrypoints/prepare.ts'' []])) \<and>
   main world_exec_fails =
     (1, snd (runUpdatePhase world_exec_fails prepared_42
               (fst (runExecutePhase world_exec_fails prepared_42 [BunRun ''/app/src/entrypoints/prepare.ts'' []]))
               (snd (runExecutePhase world_exec_fails prepared_42 [BunRun ''/app/src/entrypoints/prepare.ts'' []]))))"
proof -
  obtain e h2 where
    x: "runExecutePhase world_exec_fails prepared_42 [BunRun ''/app/src/entrypoints/prepare.ts'' []] = (e, h2)"
    by (cases "runExecutePhase world_exec_fails prepared_42 [BunRun ''/app/src/entrypoints/prepare.ts'' []]") blast
  have s: "success prepared_42"
    by (simp add: prepared_42_def)
  have f: "\<not> success e"
    using world_exec_fails_execute x by simp
  have "main world_exec_fails = ((if success e then 0 else 1), snd (runUpdatePhase world_exec_fails prepared_42 e h2))"
    using main_exit_code [OF world_exec_fails_prepare] s x by blast
  then show ?thesis
    using world_exec_fails_prepare s f x by simp
qed

lemma world_exec_fails_update:
  "last (snd (main world_exec_fails)) =
     BunRun ''/app/src/entrypoints/update-comment-gitlab.ts''
       [(''CLAUDE_COMMENT_ID'', ''42''), (''CLAUDE_SUCCESS'', ''false''), (''PREPARE_SUCCESS'', ''true''),
        (''OUTPUT_FILE'', ''/tmp/claude-execution-output.json''), (''CI_ISSUE_IID'', ''7'')]"
  by (simp add: world_exec_fails_def respond_exec_fails_def files_comment_id_def main_def
        str_defs path_defs io_defs prepare_defs execute_defs status_defs update_defs demo_defs Let_def)

section \<open>Change classification and submission\<close>

lemma update_body_branches:
  "update_body S p e h =
     seq (if fst (checkGitStatus S h) then createMergeRequest S p else postClaudeResponse S e)
       (update_tracking_comment S p e) (snd (checkGitStatus S h))"
  by (simp add: update_body_def bnd_def seq_def split: prod.splits)

lemma world_output_txt_status:
  "checkGitStatus world_output_txt [] =
     (True,
      [Chdir ''/builds/group/app'', GitRemoteGetUrl, FindDelete ''*.log'' False,
       FindDelete ''*.tmp'' False, FindDelete ''output.txt'' False,
       FindDelete ''.claude-*'' False, FindDelete ''/tmp/claude-*'' False,
       FindDelete ''node_modules/.cache'' False, FindDelete ''.DS_Store'' False,
       RmRf ''/tmp/claude-prompts'', RmRf ''/tmp/claude-output'',
       RmRf ''.claude'', GitStatus ''--porcelain''])"
  by (simp add: world_output_txt_def respond_output_txt_def status_output_txt_def
        str_defs path_defs io_defs status_defs demo_defs Let_def)

text \<open>
  C2. The working tree status of the scenario, \<^verbatim>\<open>?? output.txt\<close> and
  \<^verbatim>\<open>?? /tmp/claude-output/x.json\<close>, is classified as a change: the filter drops the
  path under \<^verbatim>\<open>/tmp/\<close> and keeps \<^verbatim>\<open>output.txt\<close>, which none of its five tests names, so
  \<^verbatim>\<open>checkGitStatus\<close> answers \<^verbatim>\<open>true\<close> and the update phase calls
  \<^verbatim>\<open>createMergeRequest\<close>, not \<^verbatim>\<open>postClaudeResponse\<close>.
\<close>

theorem classifier_counts_output_txt:
  "has_real_changes status_output_txt \<and>
   fst (checkGitStatus world_output_txt []) \<and>
   update_body world_output_txt p e [] =
     seq (createMergeRequest world_output_txt p) (update_tracking_comment world_output_txt p e)
       (snd (checkGitStatus world_output_txt []))"
proof -
  have "has_real_changes status_output_txt"
    by (simp add: status_output_txt_def has_real_changes_def status_line_kept_def str_defs Let_def)
  then show ?thesis
    by (simp add: update_body_branches world_output_txt_status)
qed

lemma world_dirty_submodule_submit:
  "createMergeRequest world_dirty_submodule prepared_42 [] =
     (Inl (ShellError 1),
      [Chdir ''/builds/group/app'', GitRemoteGetUrl, FindDelete ''*.log'' True,
       FindDelete ''*.tmp'' True, FindDelete ''output.txt'' True,
       FindDelete ''.claude-*'' True, FindDelete ''.DS_Store'' True,
       GitRevParseHead, GitConfig ''user.name'' ''Claude[bot]'',
       GitConfig ''user.email'' ''claude-bot@noreply.gitlab.com'',
       GitCheckoutNew ''claude-issue-7-1700000000000'',
       GitStatus ''--porcelain'', GitAddAll,
       GitResetHead [''*.log'', ''*.tmp'', ''output.txt'', ''.claude-*'', ''/tmp/*''],
       GitStatus ''--short'', GitCommit (commitMessage world_dirty_submodule)])"
  by (simp add: world_dirty_submodule_def respond_dirty_submodule_def status_dirty_submodule_def
        str_defs path_defs io_defs submit_defs demo_defs has_commentId_def Let_def)

lemma world_dirty_submodule_status:
  "fst (checkGitStatus world_dirty_submodule [])"
  by (simp add: world_dirty_submodule_def respond_dirty_submodule_def status_dirty_submodule_def
        str_defs path_defs io_defs status_defs demo_defs Let_def)

text \<open>
  C8. In a project whose only change is a submodule with modified content, the status
  after \<^verbatim>\<open>git add -A\<close> has no staged line: the staged set is empty. The classifier has
  counted the line as a change, and \<^verbatim>\<open>createMergeRequest\<close> does not return before the
  commit: its two tests look at the whole status, which is not empty and whose line
  passes the filter of valid files, not at the index. It runs \<^verbatim>\<open>git commit\<close>, which
  finds nothing staged and fails, and the function throws.
\<close>

theorem submitter_commits_with_nothing_staged:
  "filter staged_line
     (split_lines (stdout (respond world_dirty_submodule h (GitStatus ''--short'')))) = [] \<and>
   fst (checkGitStatus world_dirty_submodule []) \<and>
   last (snd (createMergeRequest world_dirty_submodule prepared_42 [])) =
     GitCommit (commitMessage world_dirty_submodule) \<and>
   fst (createMergeRequest world_dirty_submodule prepared_42 []) = Inl (ShellError 1)"
proof -
  have "filter staged_line
     (split_lines (stdout (respond world_dirty_submodule h (GitStatus ''--short'')))) = []"
    by (simp add: world_dirty_submodule_def respond_dirty_submodule_def status_dirty_submodule_def
          staged_line_def split_lines_def demo_defs)
  then show ?thesis
    by (simp add: world_dirty_submodule_submit world_dirty_submodule_status)
qed

section \<open>Branch reconciliation\<close>

lemma seq_Inl: "m h = (Inl e, h') \<Longrightarrow> seq m k h = (Inl e, h')"
  by (simp add: seq_def bnd_def)

lemma seq_Inr: "m h = (Inr x, h') \<Longrightarrow> seq m k h = k h'"
  by (simp add: seq_def bnd_def)

lemma bnd_Inl: "m h = (Inl e, h') \<Longrightarrow> bnd m f h = (Inl e, h')"
  by (simp add: bnd_def)

lemma bnd_Inr: "m h = (Inr x, h') \<Longrightarrow> bnd m f h = f x h'"
  by (simp add: bnd_def)

lemma js_call_cases:
  "js_call S c h = (r, h') \<Longrightarrow> h' = h @ [c]"
  by (auto simp: js_call_def)

lemma checkout_or_create_cases:
  assumes "checkout_or_create S b h = (r, h')"
  shows "r = Inr () \<or> (\<exists>e. r = Inl e \<and> (\<exists>h0. h' = h0 @ [GitCheckoutNew b]))"
  using assms
  by (auto simp: checkout_or_create_def ret_def throw_def bnd_def seq_def try_catch_def sh_def
      split: sum.splits)

lemma verify_branch_cases:
  assumes "verify_branch S b h = (r, h')"
  shows "h' = h @ [GitRevParseHead] \<and>
         (r = Inr () \<longrightarrow> trim (stdout (respond S h GitRevParseHead)) = b) \<and>
         (exitCode (respond S h GitRevParseHead) = 0 \<longrightarrow>
            trim (stdout (respond S h GitRevParseHead)) \<noteq> b \<longrightarrow>
            r = Inl (Error (''Branch checkout failed: expected '' @ b @ '', got ''
                            @ trim (stdout (respond S h GitRevParseHead)))))"
  using assms
  by (auto simp: verify_branch_def ret_def throw_def bnd_def sh_def shell_result_def
      split: sum.splits if_splits)

lemma setupWorkingBranch_cases:
  assumes "setupWorkingBranch S b d h = (r, h')"
  shows "(\<exists>e c h0. r = Inl e \<and> h' = h0 @ [c] \<and> c \<noteq> GitRevParseHead) \<or>
         (\<exists>h0. verify_branch S b h0 = (r, h'))"
proof (cases "js_call S (Chdir d) h")
  case (Pair r1 h1)
  note chdir = this
  have h1: "h1 = h @ [Chdir d]"
    using js_call_cases [OF chdir] .
  show ?thesis
  proof (cases r1)
    case (Inl e)
    then have "setupWorkingBranch S b d h = (Inl e, h1)"
      using chdir by (simp add: setupWorkingBranch_def seq_def bnd_def)
    then show ?thesis
      using assms h1 by auto
  next
    case (Inr u)
    then have step: "setupWorkingBranch S b d h = seq (checkout_or_create S b) (verify_branch S b) h1"
      using chdir by (simp add: setupWorkingBranch_def seq_Inr [of "js_call S (Chdir d)" h u h1])
    show ?thesis
    proof (cases "checkout_or_create S b h1")
      case (Pair r2 h2)
      show ?thesis
      proof (cases r2)
        case (Inl e)
        then have "setupWorkingBranch S b d h = (Inl e, h2)"
          using step Pair by (simp add: seq_def bnd_def)
        moreover obtain h0 where "h2 = h0 @ [GitCheckoutNew b]"
          using checkout_or_create_cases [OF Pair] Inl by auto
        ultimately show ?thesis
          using assms by auto
      next
        case (Inr u2)
        then have "setupWorkingBranch S b d h = verify_branch S b h2"
          using step Pair by (simp add: seq_def bnd_def)
        then show ?thesis
          using assms by auto
      qed
    qed
  qed
qed

lemma setupWorkingBranch_success:
  assumes "setupWorkingBranch S b d h = (r, h')" "r = Inr ()"
  shows "\<exists>h0. h' = h0 @ [GitRevParseHead] \<and> trim (stdout (respond S h0 GitRevParseHead)) = b"
proof -
  obtain h0 where "verify_branch S b h0 = (r, h')"
    using setupWorkingBranch_cases [OF assms(1)] assms(2) by auto
  then show ?thesis
    using verify_branch_cases [of S b h0 r h'] \<open>r = Inr ()\<close> by auto
qed

lemma setupWorkingBranch_mismatch:
  assumes "setupWorkingBranch S b d h = (r, h')"
   and a: "h' = h0 @ [GitRevParseHead]" "exitCode (respond S h0 GitRevParseHead) = 0"
    "trim (stdout (respond S h0 GitRevParseHead)) \<noteq> b"
  shows "r = Inl (Error (''Branch checkout failed: expected '' @ b @ '', got ''
                            @ trim (stdout (respond S h0 GitRevParseHead))))"
proof -
  have "\<not> (\<exists>e c h1. r = Inl e \<and> h' = h1 @ [c] \<and> c \<noteq> GitRevParseHead)"
    using a(1) by auto
  then obtain h1 where v: "verify_branch S b h1 = (r, h')"
    using setupWorkingBranch_cases [OF assms(1)] by blast
  have "h' = h1 @ [GitRevParseHead]"
    using verify_branch_cases [OF v] by blast
  then have "h1 = h0"
    using a(1) by simp
  then show ?thesis
    using verify_branch_cases [OF v] a(2,3) by blast
qed

lemma setupWorkingBranch_aborts:
  assumes "setupWorkingBranch S b d h = (r, h')"
   and a: "r = Inl e" "getenv (env S) ''CLAUDE_BRANCH'' = Some b"
    "getenv (env S) ''CI_PROJECT_DIR'' = Some d"
  shows "runExecutePhase S p h =
      (\<lparr>success = False, error = Some (exn_message e), commentId = commentId p, outputFile = None\<rparr>, h')"
proof -
  have sb: "setupWorkingBranch S b d h = (Inl e, h')"
    using assms a by simp
  have "execute_body S p h = (Inl e, h')"
    using a by (simp add: execute_body_def seq_Inl [of "setupWorkingBranch S b d" h e h', OF sb])
  then show ?thesis
    by (simp add: runExecutePhase_def)
qed

lemma checkout_or_create_success:
  assumes "shell_throws S" and "checkout_or_create S b h = (Inr (), h')"
  shows "exitCode (respond S h (GitFetch b)) = 0 \<and>
         exitCode (respond S (h @ [GitFetch b]) (GitCheckout b)) = 0 \<and>
         h' = h @ [GitFetch b, GitCheckout b] \<or>
         (\<exists>h0. exitCode (respond S h0 (GitCheckoutNew b)) = 0 \<and> h' = h0 @ [GitCheckoutNew b])"
  using assms
  by (auto simp: checkout_or_create_def ret_def throw_def bnd_def seq_def try_catch_def sh_def
      shell_result_def split: sum.splits if_splits)

lemma setupWorkingBranch_needs_git:
  assumes "shell_throws S" and "setupWorkingBranch S b d h = (Inr (), h')"
  shows "exitCode (respond S h (Chdir d)) = 0 \<and>
         (exitCode (respond S (h @ [Chdir d]) (GitFetch b)) = 0 \<and>
          exitCode (respond S (h @ [Chdir d, GitFetch b]) (GitCheckout b)) = 0 \<and>
          h' = h @ [Chdir d, GitFetch b, GitCheckout b, GitRevParseHead] \<or>
          (\<exists>h0. exitCode (respond S h0 (GitCheckoutNew b)) = 0 \<and>
             h' = h0 @ [GitCheckoutNew b, GitRevParseHead]))"
proof -
  obtain r1 h1 where c: "js_call S (Chdir d) h = (r1, h1)"
    by (cases "js_call S (Chdir d) h") blast
  have h1: "h1 = h @ [Chdir d]"
    using js_call_cases [OF c] .
  have r1: "r1 = Inr ()"
  proof (cases r1)
    case (Inl e)
    then have "setupWorkingBranch S b d h = (Inl e, h1)"
      using c by (simp add: setupWorkingBranch_def seq_def bnd_def)
    then show ?thesis
      using assms(2) by simp
  next
    case (Inr u)
    then show ?thesis
      by simp
  qed
  have chdir: "exitCode (respond S h (Chdir d)) = 0"
    using c r1 by (simp add: js_call_def call_result_def split: if_splits)
  have step: "setupWorkingBranch S b d h = seq (checkout_or_create S b) (verify_branch S b) h1"
    using c r1 by (simp add: setupWorkingBranch_def seq_def bnd_def)
  obtain r2 h2 where k: "checkout_or_create S b h1 = (r2, h2)"
    by (cases "checkout_or_create S b h1") blast
  have r2: "r2 = Inr ()"
  proof (cases r2)
    case (Inl e)
    then have "setupWorkingBranch S b d h = (Inl e, h2)"
      using step k by (simp add: seq_def bnd_def)
    then show ?thesis
      using assms(2) by simp
  next
    case (Inr u)
    then show ?thesis
      by simp
  qed
  have "setupWorkingBranch S b d h = verify_branch S b h2"
    using step k r2 by (simp add: seq_def bnd_def)
  then have v: "verify_branch S b h2 = (Inr (), h')"
    using assms(2) by simp
  have h': "h' = h2 @ [GitRevParseHead]"
    using verify_branch_cases [OF v] by blast
  have k': "checkout_or_create S b h1 = (Inr (), h2)"
    using k r2 by simp
  show ?thesis
    using checkout_or_create_success [OF assms(1) k'] chdir h1 h' by auto
qed

text \<open>
  C3, as amended. Whenever the reconciliation returns without an exception, the last
  thing it did was to ask git for the current branch, and the answer, trimmed, is the
  target branch. When git answers with another branch, the reconciliation throws
  "Branch checkout failed". Every exception of the reconciliation ends the execute
  phase at once: its result is a failure that carries the message and the comment id
  of the prepare result, and nothing further is performed. There is no test for being
  on the target branch already: under a shell that throws on a failing command, the
  reconciliation returns without an exception only if the change of directory
  succeeded and either the fetch and the checkout, or the creation of the branch,
  exited with code 0.
\<close>

theorem setupWorkingBranch_postcondition:
  assumes "setupWorkingBranch S b d h = (r, h')"
  shows "(r = Inr () \<longrightarrow>
            (\<exists>h0. h' = h0 @ [GitRevParseHead] \<and> trim (stdout (respond S h0 GitRevParseHead)) = b)) \<and>
         (\<forall>h0. h' = h0 @ [GitRevParseHead] \<longrightarrow> exitCode (respond S h0 GitRevParseHead) = 0 \<longrightarrow>
            trim (stdout (respond S h0 GitRevParseHead)) \<noteq> b \<longrightarrow>
            r = Inl (Error (''Branch checkout failed: expected '' @ b @ '', got ''
                            @ trim (stdout (respond S h0 GitRevParseHead))))) \<and>
         (\<forall>e. r = Inl e \<longrightarrow> getenv (env S) ''CLAUDE_BRANCH'' = Some b \<longrightarrow>
            getenv (env S) ''CI_PROJECT_DIR'' = Some d \<longrightarrow>
            runExecutePhase S p h =
              (\<lparr>success = False, error = Some (exn_message e), commentId = commentId p,
                outputFile = None\<rparr>, h')) \<and>
         (shell_throws S \<longrightarrow> r = Inr () \<longrightarrow>
            exitCode (respond S h (Chdir d)) = 0 \<and>
            (exitCode (respond S (h @ [Chdir d]) (GitFetch b)) = 0 \<and>
             exitCode (respond S (h @ [Chdir d, GitFetch b]) (GitCheckout b)) = 0 \<and>
             h' = h @ [Chdir d, GitFetch b, GitCheckout b, GitRevParseHead] \<or>
             (\<exists>h0. exitCode (respond S h0 (GitCheckoutNew b)) = 0 \<and>
                h' = h0 @ [GitCheckoutNew b, GitRevParseHead])))"
proof -
  have "shell_throws S \<Longrightarrow> r = Inr () \<Longrightarrow>
      exitCode (respond S h (Chdir d)) = 0 \<and>
      (exitCode (respond S (h @ [Chdir d]) (GitFetch b)) = 0 \<and>
       exitCode (respond S (h @ [Chdir d, GitFetch b]) (GitCheckout b)) = 0 \<and>
       h' = h @ [Chdir d, GitFetch b, GitCheckout b, GitRevParseHead] \<or>
       (\<exists>h0. exitCode (respond S h0 (GitCheckoutNew b)) = 0 \<and>
          h' = h0 @ [GitCheckoutNew b, GitRevParseHead]))"
    using setupWorkingBranch_needs_git [of S b d h h'] assms by simp
  then show ?thesis
    using setupWorkingBranch_success [OF assms] setupWorkingBranch_mismatch [OF assms]
      setupWorkingBranch_aborts [OF assms]
    by blast
qed

lemmas git_defs = world_git_def respond_git_def git_exec_def git_after_def repo_on_main_def

lemma world_git_first_run:
  "setupWorkingBranch world_git ''claude-issue-7'' ''/builds/group/app'' [] =
     (Inr (), [Chdir ''/builds/group/app'', GitFetch ''claude-issue-7'', GitCheckout ''claude-issue-7'',
               GitRevParseHead])"
  by (simp add: git_defs str_defs io_defs execute_defs demo_defs)

lemma world_git_second_run:
  "setupWorkingBranch world_git ''claude-issue-7'' ''/builds/group/app''
     [Chdir ''/builds/group/app'', GitFetch ''claude-issue-7'', GitCheckout ''claude-issue-7'', GitRevParseHead] =
     (Inl (Error ''Failed to setup working branch: ShellError: Failed with exit code 128''),
      [Chdir ''/builds/group/app'', GitFetch ''claude-issue-7'', GitCheckout ''claude-issue-7'', GitRevParseHead,
       Chdir ''/builds/group/app'', GitFetch ''claude-issue-7'', GitCheckoutNew ''claude-issue-7''])"
  by (simp add: git_defs str_defs io_defs execute_defs demo_defs)

text \<open>The first reconciliation checks the branch out; the working tree is then on the
  target branch, and the second reconciliation with the same target fails: git refuses
  to fetch into the branch that is checked out, and to create a branch that exists.\<close>

theorem reconcile_twice_counterexample:
  "fst (setupWorkingBranch world_git ''claude-issue-7'' ''/builds/group/app'' []) = Inr () \<and>
   current_branch (git_after repo_on_main (snd (setupWorkingBranch world_git ''claude-issue-7'' ''/builds/group/app'' [])))
     = ''claude-issue-7'' \<and>
   fst (setupWorkingBranch world_git ''claude-issue-7'' ''/builds/group/app''
          (snd (setupWorkingBranch world_git ''claude-issue-7'' ''/builds/group/app'' []))) =
     Inl (Error ''Failed to setup working branch: ShellError: Failed with exit code 128'')"
  by (simp add: world_git_first_run world_git_second_run git_after_def git_exec_def repo_on_main_def)

text \<open>In that world the first reconciliation succeeds and git reports the target
  branch; the failure of the second one ends the execute phase.\<close>

theorem setupWorkingBranch_postcondition_witness:
  "fst (setupWorkingBranch world_git ''claude-issue-7'' ''/builds/group/app'' []) = Inr () \<and>
   shell_throws world_git \<and>
   exitCode (respond world_git [] (Chdir ''/builds/group/app'')) = 0 \<and>
   trim (stdout (respond world_git
      [Chdir ''/builds/group/app'', GitFetch ''claude-issue-7'', GitCheckout ''claude-issue-7''] GitRevParseHead))
     = ''claude-issue-7'' \<and>
   getenv (env world_git) ''CLAUDE_BRANCH'' = Some ''claude-issue-7'' \<and>
   getenv (env world_git) ''CI_PROJECT_DIR'' = Some ''/builds/group/app'' \<and>
   fst (runExecutePhase world_git prepared_42
      [Chdir ''/builds/group/app'', GitFetch ''claude-issue-7'', GitCheckout ''claude-issue-7'', GitRevParseHead]) =
     \<lparr>success = False,
      error = Some ''Failed to setup working branch: ShellError: Failed with exit code 128'',
      commentId = Some (Number 42), outputFile = None\<rparr>"
proof -
  obtain h0 where
    h0: "[Chdir ''/builds/group/app'', GitFetch ''claude-issue-7'', GitCheckout ''claude-issue-7'', GitRevParseHead]
           = h0 @ [GitRevParseHead]"
    and t: "trim (stdout (respond world_git h0 GitRevParseHead)) = ''claude-issue-7''"
    using setupWorkingBranch_postcondition [OF world_git_first_run] by blast
  have "h0 = [Chdir ''/builds/group/app'', GitFetch ''claude-issue-7'', GitCheckout ''claude-issue-7'']"
    using h0 by simp
  then have a: "trim (stdout (respond world_git
      [Chdir ''/builds/group/app'', GitFetch ''claude-issue-7'', GitCheckout ''claude-issue-7''] GitRevParseHead))
     = ''claude-issue-7''"
    using t by simp
  have b: "getenv (env world_git) ''CLAUDE_BRANCH'' = Some ''claude-issue-7''"
    by (simp add: world_git_def demo_defs getenv_def)
  have c: "getenv (env world_git) ''CI_PROJECT_DIR'' = Some ''/builds/group/app''"
    by (simp add: world_git_def demo_defs getenv_def)
  have "runExecutePhase world_git prepared_42
      [Chdir ''/builds/group/app'', GitFetch ''claude-issue-7'', GitCheckout ''claude-issue-7'', GitRevParseHead] =
     (\<lparr>success = False,
       error = Some (exn_message (Error ''Failed to setup working branch: ShellError: Failed with exit code 128'')),
       commentId = commentId prepared_42, outputFile = None\<rparr>,
      [Chdir ''/builds/group/app'', GitFetch ''claude-issue-7'', GitCheckout ''claude-issue-7'', GitRevParseHead,
       Chdir ''/builds/group/app'', GitFetch ''claude-issue-7'', GitCheckoutNew ''claude-issue-7''])"
    using setupWorkingBranch_postcondition [OF world_git_second_run] b c by blast
  moreover have t: "shell_throws world_git"
    by (simp add: world_git_def demo_defs)
  moreover have "exitCode (respond world_git [] (Chdir ''/builds/group/app'')) = 0"
    using setupWorkingBranch_postcondition [OF world_git_first_run] t by blast
  ultimately show ?thesis
    using a b c by (simp add: world_git_first_run prepared_42_def)
qed

section \<open>Repository identity\<close>

lemma checkGitStatus_wrong_repository:
  assumes "getenv (env S) ''CI_PROJECT_DIR'' = Some d"
    and "call_result S h (Chdir d) = Inr ()"
    and "shell_result S (h @ [Chdir d]) GitRemoteGetUrl = Inr out"
    and "wrong_repository S (trim (stdout out))"
  shows "checkGitStatus S h = (False, h @ [Chdir d, GitRemoteGetUrl])"
  using assms
  by (simp add: checkGitStatus_def checkGitStatus_body_def seq_def bnd_def ret_def js_call_def sh_def)

lemma createMergeRequest_wrong_repository:
  assumes "getenv (env S) ''CI_PROJECT_DIR'' = Some d"
    and "call_result S h (Chdir d) = Inr ()"
    and "shell_result S (h @ [Chdir d]) GitRemoteGetUrl = Inr out"
    and "wrong_repository S (trim (stdout out))"
  shows "createMergeRequest S p h =
     (Inl (Error (''Wrong repository! Expected '' @ env_str (env S) ''CI_PROJECT_PATH''
                  @ '', but working in '' @ trim (stdout out))),
      h @ [Chdir d, GitRemoteGetUrl])"
  using assms
  by (simp add: createMergeRequest_def seq_def bnd_def throw_def js_call_def sh_def)

lemma runUpdatePhase_submitter_throws:
  assumes "checkGitStatus S h0 = (True, h)" and "createMergeRequest S p h = (Inl ex, h')"
  shows "runUpdatePhase S p e h0 =
     (\<lparr>success = False, error = Some (exn_message ex), commentId = None, outputFile = None\<rparr>, h')"
  using assms
  by (simp add: runUpdatePhase_def update_body_def seq_def bnd_def)


text \<open>
  C4, as amended. The change classifier and the change submitter read the URL of the
  remote right after changing into the project directory, before any cleanup, status or
  staging. When \<^verbatim>\<open>CI_PROJECT_PATH\<close> is set and the URL does not contain it, neither
  performs anything further. The classifier answers \<^verbatim>\<open>false\<close>, and the update phase goes
  on with the response poster and the tracking comment. The submitter throws "Wrong
  repository!", and an update phase that had reached the submitter returns a failure
  with that message.
\<close>

theorem wrong_repository_handling:
  assumes "getenv (env S) ''CI_PROJECT_DIR'' = Some d"
    and "call_result S h (Chdir d) = Inr ()"
    and "shell_result S (h @ [Chdir d]) GitRemoteGetUrl = Inr out"
    and "wrong_repository S (trim (stdout out))"
  shows "checkGitStatus S h = (False, h @ [Chdir d, GitRemoteGetUrl]) \<and>
         update_body S p e h =
           seq (postClaudeResponse S e) (update_tracking_comment S p e) (h @ [Chdir d, GitRemoteGetUrl]) \<and>
         createMergeRequest S p h =
           (Inl (Error (''Wrong repository! Expected '' @ env_str (env S) ''CI_PROJECT_PATH''
                        @ '', but working in '' @ trim (stdout out))),
            h @ [Chdir d, GitRemoteGetUrl]) \<and>
         (\<forall>h0. checkGitStatus S h0 = (True, h) \<longrightarrow>
            runUpdatePhase S p e h0 =
              (\<lparr>success = False,
                error = Some (''Wrong repository! Expected '' @ env_str (env S) ''CI_PROJECT_PATH''
                              @ '', but working in '' @ trim (stdout out)),
                commentId = None, outputFile = None\<rparr>,
               h @ [Chdir d, GitRemoteGetUrl]))"
proof -
  have a: "checkGitStatus S h = (False, h @ [Chdir d, GitRemoteGetUrl])"
    using checkGitStatus_wrong_repository [OF assms] .
  have b: "update_body S p e h =
      seq (postClaudeResponse S e) (update_tracking_comment S p e) (h @ [Chdir d, GitRemoteGetUrl])"
    by (simp add: update_body_branches a)
  note c = createMergeRequest_wrong_repository [OF assms, of p]
  have d: "\<forall>h0. checkGitStatus S h0 = (True, h) \<longrightarrow>
            runUpdatePhase S p e h0 =
              (\<lparr>success = False,
                error = Some (''Wrong repository! Expected '' @ env_str (env S) ''CI_PROJECT_PATH''
                              @ '', but working in '' @ trim (stdout out)),
                commentId = None, outputFile = None\<rparr>,
               h @ [Chdir d, GitRemoteGetUrl])"
    using runUpdatePhase_submitter_throws [OF _ c, of _ e] by simp
  show ?thesis
    using a b c d by blast
qed

lemma world_wrong_repo_update:
  "wrong_repository world_wrong_repo
     (trim (stdout (respond world_wrong_repo [Chdir ''/builds/group/app''] GitRemoteGetUrl))) \<and>
   runUpdatePhase world_wrong_repo prepared_no_comment initial_result [] =
     (\<lparr>success = True, error = None, commentId = None, outputFile = None\<rparr>,
      [Chdir ''/builds/group/app'', GitRemoteGetUrl])"
  by (simp add: world_wrong_repo_def respond_wrong_repo_def remote_other_def
        str_defs path_defs io_defs status_defs update_defs execute_defs demo_defs)

text \<open>In a clone of another project the classifier reports no changes, and the update
  phase ends as a success having run no further git command.\<close>

theorem mismatch_suppressed_counterexample:
  "wrong_repository world_wrong_repo
     (trim (stdout (respond world_wrong_repo [Chdir ''/builds/group/app''] GitRemoteGetUrl))) \<and>
   runUpdatePhase world_wrong_repo prepared_no_comment initial_result [] =
     (\<lparr>success = True, error = None, commentId = None, outputFile = None\<rparr>,
      [Chdir ''/builds/group/app'', GitRemoteGetUrl])"
  by (rule world_wrong_repo_update)

lemma world_remote_changes_status:
  "checkGitStatus world_remote_changes [] =
     (True,
      [Chdir ''/builds/group/app'', GitRemoteGetUrl, FindDelete ''*.log'' False,
       FindDelete ''*.tmp'' False, FindDelete ''output.txt'' False,
       FindDelete ''.claude-*'' False, FindDelete ''/tmp/claude-*'' False,
       FindDelete ''node_modules/.cache'' False, FindDelete ''.DS_Store'' False,
       RmRf ''/tmp/claude-prompts'', RmRf ''/tmp/claude-output'',
       RmRf ''.claude'', GitStatus ''--porcelain''])"
  by (simp add: world_remote_changes_def respond_remote_changes_def remote_other_def
        str_defs path_defs io_defs status_defs demo_defs Let_def)

theorem wrong_repository_handling_witness:
  "checkGitStatus world_wrong_repo [] = (False, [Chdir ''/builds/group/app'', GitRemoteGetUrl]) \<and>
   createMergeRequest world_wrong_repo prepared_42 [] =
     (Inl (Error ''Wrong repository! Expected group/app, but working in https://gitlab.example.com/other/project.git''),
      [Chdir ''/builds/group/app'', GitRemoteGetUrl]) \<and>
   fst (checkGitStatus world_remote_changes []) \<and>
   fst (runUpdatePhase world_remote_changes prepared_42 initial_result []) =
     \<lparr>success = False,
      error = Some ''Wrong repository! Expected group/app, but working in https://gitlab.example.com/other/project.git'',
      commentId = None, outputFile = None\<rparr>"
proof -
  have t: "trim (stdout remote_other) = ''https://gitlab.example.com/other/project.git''"
    by (simp add: remote_other_def ok_def str_defs)
  have e1: "getenv (env world_wrong_repo) ''CI_PROJECT_DIR'' = Some ''/builds/group/app''"
    by (simp add: world_wrong_repo_def demo_defs getenv_def)
  have c1: "call_result world_wrong_repo [] (Chdir ''/builds/group/app'') = Inr ()"
    by (simp add: world_wrong_repo_def respond_wrong_repo_def demo_defs call_result_def)
  have s1: "shell_result world_wrong_repo ([] @ [Chdir ''/builds/group/app'']) GitRemoteGetUrl
      = Inr remote_other"
    by (simp add: world_wrong_repo_def respond_wrong_repo_def remote_other_def demo_defs shell_result_def)
  have w1: "wrong_repository world_wrong_repo (trim (stdout remote_other))"
    by (simp add: t) (simp add: world_wrong_repo_def wrong_repository_def demo_defs getenv_def)
  have p1: "env_str (env world_wrong_repo) ''CI_PROJECT_PATH'' = ''group/app''"
    by (simp add: world_wrong_repo_def demo_defs env_str_def)
  note first = wrong_repository_handling [OF e1 c1 s1 w1, of prepared_42 initial_result]
  have a: "checkGitStatus world_wrong_repo [] = (False, [Chdir ''/builds/group/app'', GitRemoteGetUrl])"
    using first by simp
  have "createMergeRequest world_wrong_repo prepared_42 [] =
      (Inl (Error (''Wrong repository! Expected '' @ env_str (env world_wrong_repo) ''CI_PROJECT_PATH''
                   @ '', but working in '' @ trim (stdout remote_other))),
       [] @ [Chdir ''/builds/group/app'', GitRemoteGetUrl])"
    using first by blast
  then have b: "createMergeRequest world_wrong_repo prepared_42 [] =
     (Inl (Error ''Wrong repository! Expected group/app, but working in https://gitlab.example.com/other/project.git''),
      [Chdir ''/builds/group/app'', GitRemoteGetUrl])"
    by (simp add: t p1)
  let ?h = "[Chdir ''/builds/group/app'', GitRemoteGetUrl, FindDelete ''*.log'' False,
       FindDelete ''*.tmp'' False, FindDelete ''output.txt'' False,
       FindDelete ''.claude-*'' False, FindDelete ''/tmp/claude-*'' False,
       FindDelete ''node_modules/.cache'' False, FindDelete ''.DS_Store'' False,
       RmRf ''/tmp/claude-prompts'', RmRf ''/tmp/claude-output'',
       RmRf ''.claude'', GitStatus ''--porcelain'']"
  have e2: "getenv (env world_remote_changes) ''CI_PROJECT_DIR'' = Some ''/builds/group/app''"
    by (simp add: world_remote_changes_def demo_defs getenv_def)
  have c2: "call_result world_remote_changes ?h (Chdir ''/builds/group/app'') = Inr ()"
    by (simp add: world_remote_changes_def respond_remote_changes_def demo_defs call_result_def)
  have s2: "shell_result world_remote_changes (?h @ [Chdir ''/builds/group/app'']) GitRemoteGetUrl
      = Inr remote_other"
    by (simp add: world_remote_changes_def respond_remote_changes_def remote_other_def demo_defs shell_result_def)
  have w2: "wrong_repository world_remote_changes (trim (stdout remote_other))"
    by (simp add: t) (simp add: world_remote_changes_def wrong_repository_def demo_defs getenv_def)
  have p2: "env_str (env world_remote_changes) ''CI_PROJECT_PATH'' = ''group/app''"
    by (simp add: world_remote_changes_def demo_defs env_str_def)
  have "runUpdatePhase world_remote_changes prepared_42 initial_result [] =
      (\<lparr>success = False,
        error = Some (''Wrong repository! Expected '' @ env_str (env world_remote_changes) ''CI_PROJECT_PATH''
                      @ '', but working in '' @ trim (stdout remote_other)),
        commentId = None, outputFile = None\<rparr>,
       ?h @ [Chdir ''/builds/group/app'', GitRemoteGetUrl])"
    using wrong_repository_handling [OF e2 c2 s2 w2, of prepared_42 initial_result]
      world_remote_changes_status by blast
  then have c: "fst (runUpdatePhase world_remote_changes prepared_42 initial_result []) =
     \<lparr>success = False,
      error = Some ''Wrong repository! Expected group/app, but working in https://gitlab.example.com/other/project.git'',
      commentId = None, outputFile = None\<rparr>"
    by (simp add: t p2)
  have d: "fst (checkGitStatus world_remote_changes [])"
    by (simp add: world_remote_changes_status)
  show ?thesis
    using a b c d by blast
qed

section \<open>The update phase without a tracking comment\<close>

named_theorems performs_intros

lemma performs_ret [performs_intros]: "performs P (ret x)"
  by (simp add: performs_def ret_def)

lemma performs_throw [performs_intros]: "performs P (throw e)"
  by (simp add: performs_def throw_def)

lemma performs_sh [performs_intros]: "P c \<Longrightarrow> performs P (sh S c)"
  by (simp add: performs_def sh_def)

lemma performs_js_call [performs_intros]: "P c \<Longrightarrow> performs P (js_call S c)"
  by (simp add: performs_def js_call_def)

lemma performs_get_now [performs_intros]: "performs P (get_now S)"
  by (simp add: performs_def get_now_def)

lemma performs_bnd [performs_intros]:
  assumes "performs P m" and "\<And>x. performs P (f x)"
  shows "performs P (bnd m f)"
  unfolding performs_def
proof
  fix h
  obtain n1 where n1: "snd (m h) = h @ n1" "list_all P n1"
    using assms(1) unfolding performs_def by blast
  show "\<exists>new. snd (bnd m f h) = h @ new \<and> list_all P new"
  proof (cases "m h")
    case (Pair r h1)
    then have h1: "h1 = h @ n1"
      using n1 by simp
    show ?thesis
    proof (cases r)
      case (Inl e)
      then show ?thesis
        using Pair h1 n1 by (simp add: bnd_def)
    next
      case (Inr x)
      obtain n2 where n2: "snd (f x h1) = h1 @ n2" "list_all P n2"
        using assms(2) [of x] unfolding performs_def by blast
      have "snd (bnd m f h) = h @ (n1 @ n2)"
        using Pair Inr h1 n2 by (simp add: bnd_def)
      moreover have "list_all P (n1 @ n2)"
        using n1 n2 by simp
      ultimately show ?thesis
        by blast
    qed
  qed
qed

lemma performs_seq [performs_intros]:
  "performs P m \<Longrightarrow> performs P k \<Longrightarrow> performs P (seq m k)"
  by (simp add: seq_def performs_bnd)

lemma performs_try_catch [performs_intros]:
  assumes "performs P m" and "\<And>e. performs P (handler e)"
  shows "performs P (try_catch m handler)"
  unfolding performs_def
proof
  fix h
  obtain n1 where n1: "snd (m h) = h @ n1" "list_all P n1"
    using assms(1) unfolding performs_def by blast
  show "\<exists>new. snd (try_catch m handler h) = h @ new \<and> list_all P new"
  proof (cases "m h")
    case (Pair r h1)
    then have h1: "h1 = h @ n1"
      using n1 by simp
    show ?thesis
    proof (cases r)
      case (Inr x)
      then show ?thesis
        using Pair h1 n1 by (simp add: try_catch_def)
    next
      case (Inl e)
      obtain n2 where n2: "snd (handler e h1) = h1 @ n2" "list_all P n2"
        using assms(2) [of e] unfolding performs_def by blast
      have "snd (try_catch m handler h) = h @ (n1 @ n2)"
        using Pair Inl h1 n2 by (simp add: try_catch_def)
      moreover have "list_all P (n1 @ n2)"
        using n1 n2 by simp
      ultimately show ?thesis
        by blast
    qed
  qed
qed

lemma performs_ignore_errors [performs_intros]:
  "performs P m \<Longrightarrow> performs P (ignore_errors m)"
  by (simp add: ignore_errors_def performs_intros)

lemma performs_for_each [performs_intros]:
  "(\<And>x. performs P (f x)) \<Longrightarrow> performs P (for_each f xs)"
  by (induction xs) (simp_all add: performs_intros)

lemma performs_if [performs_intros]:
  "performs P a \<Longrightarrow> performs P b \<Longrightarrow> performs P (if c then a else b)"
  by simp

lemma performs_case_option [performs_intros]:
  "performs P a \<Longrightarrow> (\<And>x. performs P (b x)) \<Longrightarrow> performs P (case v of None \<Rightarrow> a | Some x \<Rightarrow> b x)"
  by (cases v) simp_all

lemma not_script_run [simp]:
  "\<not> is_script_run (Chdir d)" "\<not> is_script_run GitRemoteGetUrl" "\<not> is_script_run (FindDelete pat x)"
  "\<not> is_script_run (RmRf dir)" "\<not> is_script_run (GitStatus a)" "\<not> is_script_run GitRevParseHead"
  "\<not> is_script_run (GitConfig k v)" "\<not> is_script_run (GitCheckoutNew b)" "\<not> is_script_run GitAddAll"
  "\<not> is_script_run (GitResetHead ps)" "\<not> is_script_run (GitCheckoutPaths ps)"
  "\<not> is_script_run (GitCommit m)" "\<not> is_script_run (GitRemoteSetUrl u)"
  "\<not> is_script_run (GitPush t ti de br)" "\<not> is_script_run (CreateComment body)"
  by (simp_all add: is_script_run_def)








text \<open>An id file that is missing, empty or blank leaves the comment id unset; the
  content 0 gives the number 0, and a content without leading digits gives NaN.\<close>

lemma read_comment_id_absent:
  "read_comment_id (\<lambda>f. Missing) = None"
  "read_comment_id (\<lambda>f. Content []) = None"
  "read_comment_id (\<lambda>f. Content ''0'') = Some (Number 0)"
  "read_comment_id (\<lambda>f. Content ''abc'') = Some NaN"
  by (simp_all add: read_comment_id_def parseInt_def radix_digit_def hex_val_def str_defs opt_or_def)


lemma postClaudeResponse_never_throws:
  "fst (postClaudeResponse S e h) = Inr ()"
  by (simp add: postClaudeResponse_def try_catch_def ret_def js_call_def call_result_def Let_def
      split: prod.splits sum.splits)





section \<open>Reading the transcript\<close>

lemmas parse_defs =
  skip_ws_def is_json_ws_def dquote_def backslash_def escape_char_def
  parse_number_def is_digit_def nat_of_digits_def digit_val_def hex_val_def utf8_encode_def quoted_def

subsection \<open>Blank lines are not JSON\<close>

lemma trim_Nil_iff: "trim s = [] \<longleftrightarrow> (\<forall>c\<in>set s. is_space c)"
proof
  assume "trim s = []"
  then have "dropWhile is_space (rev (dropWhile is_space s)) = []"
    by (simp add: trim_def)
  then have "\<forall>x\<in>set (rev (dropWhile is_space s)). is_space x"
    by (simp only: dropWhile_eq_Nil_conv)
  then have a: "\<forall>x\<in>set (dropWhile is_space s). is_space x"
    by simp
  have "dropWhile is_space s = []"
  proof (rule ccontr)
    assume n: "dropWhile is_space s \<noteq> []"
    then have "\<not> is_space (hd (dropWhile is_space s))"
      by (rule hd_dropWhile)
    moreover have "hd (dropWhile is_space s) \<in> set (dropWhile is_space s)"
      using n by (rule hd_in_set)
    ultimately show False
      using a by blast
  qed
  then show "\<forall>c\<in>set s. is_space c"
    by (simp only: dropWhile_eq_Nil_conv)
next
  assume "\<forall>c\<in>set s. is_space c"
  then have "dropWhile is_space s = []"
    by (simp only: dropWhile_eq_Nil_conv)
  then show "trim s = []"
    unfolding trim_def by (simp only: rev.simps dropWhile.simps)
qed

lemma parse_value_space:
  assumes "is_space c" and "\<not> is_json_ws c"
  shows "parse_value n (c # cs) = None"
proof -
  have "c = CHR 0x0B \<or> c = CHR 0x0C"
    using assms by (auto simp: is_space_def is_json_ws_def)
  then show ?thesis
  proof
    assume "c = CHR 0x0B"
    then show ?thesis
      by (cases n) (simp_all add: dquote_def is_digit_def)
  next
    assume "c = CHR 0x0C"
    then show ?thesis
      by (cases n) (simp_all add: dquote_def is_digit_def)
  qed
qed

lemma parse_value_Nil: "parse_value n [] = None"
  by (cases n) simp_all

lemma JSON_parse_blank:
  assumes "trim s = []"
  shows "JSON_parse s = None"
proof (cases "skip_ws s")
  case Nil
  have "parse_value (2 * length s + 2) [] = None"
    by (rule parse_value_Nil)
  then show ?thesis
    by (simp only: JSON_parse_def Nil option.case)
next
  case (Cons c cs)
  have n: "dropWhile is_json_ws s \<noteq> []"
    using Cons by (simp add: skip_ws_def)
  have "\<not> is_json_ws (hd (dropWhile is_json_ws s))"
    using n by (rule hd_dropWhile)
  then have w: "\<not> is_json_ws c"
    using Cons by (simp add: skip_ws_def)
  have "c \<in> set (dropWhile is_json_ws s)"
    using Cons by (simp add: skip_ws_def)
  then have "c \<in> set s"
    by (rule set_dropWhileD)
  then have "is_space c"
    using assms by (simp add: trim_Nil_iff)
  then have "parse_value (2 * length s + 2) (c # cs) = None"
    using w by (rule parse_value_space)
  then show ?thesis
    by (simp only: JSON_parse_def Cons option.case)
qed

subsection \<open>The records of a JSONL transcript\<close>




text \<open>In the loop of the response poster a line that is not JSON never ends the loop: it
  becomes the message when there is none yet and the line is longer than 50 characters,
  and the lines after it are processed as before.\<close>

lemma extract_message_malformed:
  assumes "JSON_parse bad = None"
  shows "extract_message nts m (bad # ls) =
     extract_message nts (if \<not> truthy m \<and> 50 < length (trim bad) then JStr (trim bad) else m) ls"
  using assms by simp

subsection \<open>The transcript of the scenario\<close>

lemma to_double_cost: "to_double (1 / 50) = 5764607523034235 / 288230376151711744"
  by code_simp

lemma to_double_duration: "to_double 1500 = 1500"
  by code_simp

lemma parse_line1:
  "parse_value (Suc (Suc (Suc (Suc (Suc (Suc (Suc (Suc n)))))))) (scenario_line1 @ rest) =
     Some (JObj [(''type'', JStr ''result''), (''result'', JStr ''Done.''),
                 (''cost_usd'', JNum (5764607523034235 / 288230376151711744)),
                 (''duration_ms'', JNum 1500)], rest)"
  by (simp add: scenario_line1_def parse_defs to_double_cost to_double_duration)

lemma parse_line2:
  "parse_value (Suc (Suc (Suc (Suc (Suc (Suc (Suc (Suc (Suc (Suc (Suc (Suc n)))))))))))) (scenario_line2 @ rest) =
     Some (JObj [(''type'', JStr ''assistant''),
                 (''message'', JObj [(''content'',
                    JArr [JObj [(''type'', JStr ''text''), (''text'', JStr ''ignored'')]])])], rest)"
  by (simp add: scenario_line2_def parse_defs)

lemma fuel_8: "8 \<le> m \<Longrightarrow> \<exists>n. m = Suc (Suc (Suc (Suc (Suc (Suc (Suc (Suc n)))))))"
  by (rule exI [of _ "m - 8"]) simp

lemma fuel_12:
  "12 \<le> m \<Longrightarrow> \<exists>n. m = Suc (Suc (Suc (Suc (Suc (Suc (Suc (Suc (Suc (Suc (Suc (Suc n)))))))))))"
  by (rule exI [of _ "m - 12"]) simp

lemma skip_ws_line1: "skip_ws (scenario_line1 @ rest) = scenario_line1 @ rest"
  by (simp add: scenario_line1_def quoted_def skip_ws_def is_json_ws_def)

lemma skip_ws_line2: "skip_ws (scenario_line2 @ rest) = scenario_line2 @ rest"
  by (simp add: scenario_line2_def quoted_def skip_ws_def is_json_ws_def)

lemma JSON_parse_whole:
  "parse_value (2 * length s + 2) (skip_ws s) = Some (v, rest) \<Longrightarrow> skip_ws rest = [] \<Longrightarrow>
   JSON_parse s = Some v"
  unfolding JSON_parse_def by simp

lemma JSON_parse_trailing:
  "parse_value (2 * length s + 2) (skip_ws s) = Some (v, rest) \<Longrightarrow> skip_ws rest \<noteq> [] \<Longrightarrow>
   JSON_parse s = None"
  unfolding JSON_parse_def by simp

lemma JSON_parse_line1:
  "JSON_parse scenario_line1 =
     Some (JObj [(''type'', JStr ''result''), (''result'', JStr ''Done.''),
                 (''cost_usd'', JNum (5764607523034235 / 288230376151711744)),
                 (''duration_ms'', JNum 1500)])"
proof -
  have "8 \<le> 2 * length scenario_line1 + 2"
    by (simp add: scenario_line1_def quoted_def)
  then obtain n where n: "2 * length scenario_line1 + 2 = Suc (Suc (Suc (Suc (Suc (Suc (Suc (Suc n)))))))"
    using fuel_8 by blast
  have sk: "skip_ws scenario_line1 = scenario_line1"
    using skip_ws_line1 [of "[]"] by (simp only: append_Nil2)
  have pv: "parse_value (Suc (Suc (Suc (Suc (Suc (Suc (Suc (Suc n)))))))) scenario_line1 =
      Some (JObj [(''type'', JStr ''result''), (''result'', JStr ''Done.''),
                  (''cost_usd'', JNum (5764607523034235 / 288230376151711744)),
                  (''duration_ms'', JNum 1500)], [])"
    using parse_line1 [of n "[]"] by (simp only: append_Nil2)
  have "parse_value (2 * length scenario_line1 + 2) (skip_ws scenario_line1) =
      Some (JObj [(''type'', JStr ''result''), (''result'', JStr ''Done.''),
                  (''cost_usd'', JNum (5764607523034235 / 288230376151711744)),
                  (''duration_ms'', JNum 1500)], [])"
    using pv by (simp only: n sk)
  then show ?thesis
    by (rule JSON_parse_whole) (simp add: skip_ws_def)
qed

lemma JSON_parse_line2:
  "JSON_parse scenario_line2 =
     Some (JObj [(''type'', JStr ''assistant''),
                 (''message'', JObj [(''content'',
                    JArr [JObj [(''type'', JStr ''text''), (''text'', JStr ''ignored'')]])])])"
proof -
  have "12 \<le> 2 * length scenario_line2 + 2"
    by (simp add: scenario_line2_def quoted_def)
  then obtain n where
    n: "2 * length scenario_line2 + 2 = Suc (Suc (Suc (Suc (Suc (Suc (Suc (Suc (Suc (Suc (Suc (Suc n)))))))))))"
    using fuel_12 by blast
  have sk: "skip_ws scenario_line2 = scenario_line2"
    using skip_ws_line2 [of "[]"] by (simp only: append_Nil2)
  have pv: "parse_value (Suc (Suc (Suc (Suc (Suc (Suc (Suc (Suc (Suc (Suc (Suc (Suc n)))))))))))) scenario_line2 =
      Some (JObj [(''type'', JStr ''assistant''),
                  (''message'', JObj [(''content'',
                     JArr [JObj [(''type'', JStr ''text''), (''text'', JStr ''ignored'')]])])], [])"
    using parse_line2 [of n "[]"] by (simp only: append_Nil2)
  have "parse_value (2 * length scenario_line2 + 2) (skip_ws scenario_line2) =
      Some (JObj [(''type'', JStr ''assistant''),
                  (''message'', JObj [(''content'',
                     JArr [JObj [(''type'', JStr ''text''), (''text'', JStr ''ignored'')]])])], [])"
    using pv by (simp only: n sk)
  then show ?thesis
    by (rule JSON_parse_whole) (simp add: skip_ws_def)
qed

text \<open>The two lines together are not one JSON value: the second record follows the
  first.\<close>

lemma JSON_parse_transcript: "JSON_parse scenario_transcript = None"
proof -
  have "8 \<le> 2 * length scenario_transcript + 2"
    by (simp add: scenario_transcript_def scenario_line1_def quoted_def)
  then obtain n where n: "2 * length scenario_transcript + 2 = Suc (Suc (Suc (Suc (Suc (Suc (Suc (Suc n)))))))"
    using fuel_8 by blast
  have sk: "skip_ws scenario_transcript = scenario_transcript"
    unfolding scenario_transcript_def by (rule skip_ws_line1)
  have pv: "parse_value (Suc (Suc (Suc (Suc (Suc (Suc (Suc (Suc n)))))))) scenario_transcript =
      Some (JObj [(''type'', JStr ''result''), (''result'', JStr ''Done.''),
                  (''cost_usd'', JNum (5764607523034235 / 288230376151711744)),
                  (''duration_ms'', JNum 1500)], [CHR 0x0A] @ scenario_line2)"
    unfolding scenario_transcript_def by (rule parse_line1)
  have p: "parse_value (2 * length scenario_transcript + 2) (skip_ws scenario_transcript) =
      Some (JObj [(''type'', JStr ''result''), (''result'', JStr ''Done.''),
                  (''cost_usd'', JNum (5764607523034235 / 288230376151711744)),
                  (''duration_ms'', JNum 1500)], [CHR 0x0A] @ scenario_line2)"
    using pv by (simp only: n sk)
  have "skip_ws ([CHR 0x0A] @ scenario_line2) = scenario_line2"
    using skip_ws_line2 [of "[]"] by (simp add: skip_ws_def is_json_ws_def)
  moreover have "scenario_line2 \<noteq> []"
    by (simp add: scenario_line2_def)
  ultimately have "skip_ws ([CHR 0x0A] @ scenario_line2) \<noteq> []"
    by simp
  with p show ?thesis
    by (rule JSON_parse_trailing)
qed

lemma transcript_lines: "split_lines (trim scenario_transcript) = [scenario_line1, scenario_line2]"
  by (simp add: scenario_transcript_def scenario_line1_def scenario_line2_def quoted_def dquote_def
        trim_def is_space_def split_lines_def)

lemma line1_not_blank: "trim scenario_line1 \<noteq> []"
  using JSON_parse_blank [of scenario_line1] JSON_parse_line1 by auto

lemma line2_not_blank: "trim scenario_line2 \<noteq> []"
  using JSON_parse_blank [of scenario_line2] JSON_parse_line2 by auto


lemma transcript_records:
  "parse_output_data scenario_transcript =
     JArr [JObj [(''type'', JStr ''result''), (''result'', JStr ''Done.''),
                 (''cost_usd'', JNum (5764607523034235 / 288230376151711744)),
                 (''duration_ms'', JNum 1500)],
           JObj [(''type'', JStr ''assistant''),
                 (''message'', JObj [(''content'',
                    JArr [JObj [(''type'', JStr ''text''), (''text'', JStr ''ignored'')]])])]]"
  by (simp add: parse_output_data_def JSON_parse_transcript transcript_lines line1_not_blank
        line2_not_blank JSON_parse_line1 JSON_parse_line2)

lemma transcript_details:
  "details_from_content scenario_transcript =
     Some \<lparr>cost_usd = Some (JNum (5764607523034235 / 288230376151711744)),
           duration_ms = Some (JNum 1500)\<rparr>"
proof -
  have "scenario_transcript \<noteq> []"
    by (simp add: scenario_transcript_def)
  then show ?thesis
    by (simp add: details_from_content_def transcript_records)
qed

lemma transcript_message: "claude_message S scenario_transcript = JStr ''Done.''"
  by (simp add: claude_message_def transcript_lines line1_not_blank JSON_parse_line1 record_effect_def)






section \<open>Locating the transcript\<close>

subsection \<open>The two well-known paths\<close>

lemma split_on_not_Nil: "split_on x s \<noteq> []"
  by (induction s) (auto split: list.splits)

lemma split_on_absent: "x \<notin> set n \<Longrightarrow> split_on x n = [n]"
  by (induction n) auto

lemma split_on_append: "x \<notin> set n \<Longrightarrow> split_on x (a @ x # n) = split_on x a @ [n]"
proof (induction a)
  case Nil
  then show ?case
    by (simp add: split_on_absent)
next
  case (Cons c a)
  obtain l ls where l: "split_on x a = l # ls"
    using split_on_not_Nil [of x a] by (cases "split_on x a") auto
  show ?case
    using Cons l by simp
qed

lemma normalize_segments_last:
  assumes "name \<noteq> []" and "name \<noteq> ''.''" and "name \<noteq> ''..''"
  shows "\<exists>xs. normalize_segments allow acc (ss @ [name]) = xs @ [name]"
  using assms
proof (induction ss arbitrary: acc)
  case Nil
  then show ?case
    by simp
next
  case (Cons s ss)
  show ?case
    using Cons.IH [OF Cons.prems] by (cases allow) (auto split: list.splits)
qed

lemma join_with_last: "\<exists>pre. join_with sep (xs @ [name]) = pre @ name"
proof (induction xs)
  case Nil
  show ?case
    by simp
next
  case (Cons x xs)
  then obtain pre where pre: "join_with sep (xs @ [name]) = pre @ name"
    by blast
  obtain y ys where y: "xs @ [name] = y # ys"
    by (cases "xs @ [name]") auto
  have "join_with sep ((x # xs) @ [name]) = (x @ sep @ pre) @ name"
    using pre y by simp
  then show ?case
    by blast
qed

lemma path_normalize_file:
  assumes "CHR ''/'' \<notin> set name" and "name \<noteq> []" and "name \<noteq> ''.''" and "name \<noteq> ''..''"
    and "split_on CHR ''/'' p = ss @ [name]" and "last p = last name" and "p \<noteq> []"
  shows "\<exists>pre. path_normalize p = pre @ name"
proof -
  obtain xs where xs: "normalize_segments (hd p \<noteq> CHR ''/'') [] (split_on CHR ''/'' p) = xs @ [name]"
    using normalize_segments_last [OF assms(2,3,4)] assms(5) by metis
  obtain pre where pre: "join_with ''/'' (xs @ [name]) = pre @ name"
    using join_with_last by blast
  have l: "last p \<noteq> CHR ''/''"
    by (metis assms(1,2,6) last_in_set)
  have q: "pre @ name \<noteq> []"
    using assms(2) by simp
  show ?thesis
  proof (cases "hd p = CHR ''/''")
    case True
    then have "path_normalize p = (CHR ''/'' # pre) @ name"
      using assms(7) xs pre l q by (simp add: path_normalize_def Let_def)
    then show ?thesis
      by blast
  next
    case False
    then have "path_normalize p = pre @ name"
      using assms(7) xs pre l q by (simp add: path_normalize_def Let_def)
    then show ?thesis
      by blast
  qed
qed

lemma path_join_file:
  assumes "CHR ''/'' \<notin> set name" and "name \<noteq> []" and "name \<noteq> ''.''" and "name \<noteq> ''..''"
  shows "\<exists>pre. path_join [t, name] = pre @ name"
proof (cases "t = []")
  case True
  have "split_on CHR ''/'' name = [] @ [name]"
    using assms(1) by (simp add: split_on_absent)
  then have "\<exists>pre. path_normalize name = pre @ name"
    using path_normalize_file [OF assms, of name "[]"] assms(2) by simp
  then show ?thesis
    using True assms(2) by (simp add: path_join_def)
next
  case False
  have "split_on CHR ''/'' (t @ CHR ''/'' # name) = split_on CHR ''/'' t @ [name]"
    using assms(1) by (rule split_on_append)
  moreover have "last (t @ CHR ''/'' # name) = last name"
    using assms(2) by simp
  ultimately have "\<exists>pre. path_normalize (t @ CHR ''/'' # name) = pre @ name"
    using path_normalize_file [OF assms, of "t @ CHR ''/'' # name" "split_on CHR ''/'' t"] by simp
  then show ?thesis
    using False assms(2) by (simp add: path_join_def)
qed

lemma jsonOutputFile_name: "\<exists>pre. jsonOutputFile S = pre @ ''claude-execution-output.json''"
  unfolding jsonOutputFile_def by (rule path_join_file) simp_all

lemma txtOutputFile_name: "\<exists>pre. txtOutputFile S = pre @ ''output.txt''"
  unfolding txtOutputFile_def by (rule path_join_file) simp_all

lemma jsonOutputFile_not_Nil: "jsonOutputFile S \<noteq> []"
  using jsonOutputFile_name [of S] by auto

lemma txtOutputFile_not_Nil: "txtOutputFile S \<noteq> []"
  using txtOutputFile_name [of S] by auto

lemma json_txt_distinct: "jsonOutputFile S \<noteq> txtOutputFile S"
proof
  assume e: "jsonOutputFile S = txtOutputFile S"
  obtain a where a: "jsonOutputFile S = a @ ''claude-execution-output.json''"
    using jsonOutputFile_name by blast
  obtain b where b: "txtOutputFile S = b @ ''output.txt''"
    using txtOutputFile_name by blast
  have "last (jsonOutputFile S) = CHR ''n''"
    by (simp add: a)
  moreover have "last (txtOutputFile S) = CHR ''t''"
    by (simp add: b)
  ultimately show False
    using e by simp
qed


subsection \<open>The search loop\<close>

lemma readFirstExisting_first:
  assumes "\<forall>q\<in>set qs. fs q = Missing \<or> fs q = Unreadable" and "fs p = Content c"
  shows "readFirstExisting fs (qs @ p # ps) = (c, p)"
  using assms by (induction qs) auto

lemma readFirstExisting_none:
  assumes "\<forall>q\<in>set qs. fs q = Missing \<or> fs q = Unreadable"
  shows "readFirstExisting fs qs = ([], [])"
  using assms by (induction qs) auto

lemma details_from_content_empty: "details_from_content [] = None"
  by (simp add: details_from_content_def)

lemma possibleOutputFiles_unset:
  "outputFile e = None \<or> outputFile e = Some [] \<Longrightarrow>
   possibleOutputFiles S e =
     jsonOutputFile S # txtOutputFile S # filter (\<lambda>f. f \<noteq> []) [claudeExecutionOutputPath S]"
  by (auto simp add: possibleOutputFiles_def opt_or_def jsonOutputFile_not_Nil txtOutputFile_not_Nil)

lemma possibleOutputFiles_set:
  "outputFile e = Some f \<Longrightarrow> f \<noteq> [] \<Longrightarrow>
   possibleOutputFiles S e =
     f # jsonOutputFile S # txtOutputFile S # filter (\<lambda>f. f \<noteq> []) [claudeExecutionOutputPath S]"
  by (simp add: possibleOutputFiles_def opt_or_def jsonOutputFile_not_Nil txtOutputFile_not_Nil)

lemma postClaudeResponse_nothing_found:
  assumes "\<forall>q\<in>set (possibleOutputFiles S e). files S h q = Missing \<or> files S h q = Unreadable"
  shows "postClaudeResponse S e h = (Inr (), h)"
  using readFirstExisting_none [OF assms]
  by (simp add: postClaudeResponse_def try_catch_def ret_def)

lemma runExecutePhase_outputFile:
  assumes "runExecutePhase S p h = (e, h')"
  shows "outputFile e = None \<or> outputFile e = Some (actualOutputFile S (files S h'))"
  using assms
  by (auto simp add: runExecutePhase_def execute_body_def bnd_def seq_def throw_def
      split: prod.splits sum.splits if_splits)


subsection \<open>The reader of the comment updater and the candidates of the response poster\<close>

lemma getExecutionDetails_found:
  assumes "f \<noteq> []"
    and "\<forall>q\<in>set qs. fs q = Missing \<or> fs q = Unreadable" and "fs p = Content c"
    and "[f, path_join [tempDir ev, ''claude-execution-output.json''],
          path_join [tempDir ev, ''output.txt'']] = qs @ p # ps"
  shows "getExecutionDetails ev fs (Some f) = details_from_content c"
  using assms(1) readFirstExisting_first [OF assms(2,3), of ps]
  by (simp add: getExecutionDetails_def assms(4))

lemma tmp_json_path: "path_join [tempDir demo_env, ''claude-execution-output.json''] = ''/tmp/claude-execution-output.json''"
  by (simp add: path_defs demo_defs)

lemma tmp_txt_path: "path_join [tempDir demo_env, ''output.txt''] = ''/tmp/output.txt''"
  by (simp add: path_defs demo_defs)

lemma jsonOutputFile_demo: "jsonOutputFile (demo_sys r f) = ''/tmp/claude-execution-output.json''"
  by (simp add: jsonOutputFile_def demo_sys_def tmp_json_path)

lemma txtOutputFile_demo: "txtOutputFile (demo_sys r f) = ''/tmp/output.txt''"
  by (simp add: txtOutputFile_def demo_sys_def tmp_txt_path)

text \<open>
  C5, as amended. The reader of the comment updater tries nothing when it is given no
  path, or the empty one, and answers \<^verbatim>\<open>null\<close>. Given a path it tries that path, then
  \<^verbatim>\<open>claude-execution-output.json\<close> and then \<^verbatim>\<open>output.txt\<close> of the temporary directory,
  and parses the content of the first that exists and can be read; when none does the
  answer is \<^verbatim>\<open>null\<close>. The response poster tries the file of the execute result when
  there is one, then the same two files, then the configured path, whether a file was
  given or not; its loop returns the content and the path of the first candidate that
  exists and can be read, and nothing when there is none. The poster never throws, and
  when no candidate can be read it performs nothing.
\<close>

theorem artifact_reader_candidates:
  "getExecutionDetails ev fs None = None \<and>
   getExecutionDetails ev fs (Some []) = None \<and>
   (f \<noteq> [] \<longrightarrow>
      (\<forall>c. fs f = Content c \<longrightarrow> getExecutionDetails ev fs (Some f) = details_from_content c) \<and>
      (\<forall>c. (fs f = Missing \<or> fs f = Unreadable) \<and>
           fs (path_join [tempDir ev, ''claude-execution-output.json'']) = Content c \<longrightarrow>
         getExecutionDetails ev fs (Some f) = details_from_content c) \<and>
      (\<forall>c. (fs f = Missing \<or> fs f = Unreadable) \<and>
           (fs (path_join [tempDir ev, ''claude-execution-output.json'']) = Missing \<or>
            fs (path_join [tempDir ev, ''claude-execution-output.json'']) = Unreadable) \<and>
           fs (path_join [tempDir ev, ''output.txt'']) = Content c \<longrightarrow>
         getExecutionDetails ev fs (Some f) = details_from_content c) \<and>
      ((fs f = Missing \<or> fs f = Unreadable) \<and>
       (fs (path_join [tempDir ev, ''claude-execution-output.json'']) = Missing \<or>
        fs (path_join [tempDir ev, ''claude-execution-output.json'']) = Unreadable) \<and>
       (fs (path_join [tempDir ev, ''output.txt'']) = Missing \<or>
        fs (path_join [tempDir ev, ''output.txt'']) = Unreadable) \<longrightarrow>
         getExecutionDetails ev fs (Some f) = None)) \<and>
   (outputFile e = None \<or> outputFile e = Some [] \<longrightarrow>
      possibleOutputFiles S e =
        jsonOutputFile S # txtOutputFile S # filter (\<lambda>f. f \<noteq> []) [claudeExecutionOutputPath S]) \<and>
   (f \<noteq> [] \<and> outputFile e = Some f \<longrightarrow>
      possibleOutputFiles S e =
        f # jsonOutputFile S # txtOutputFile S # filter (\<lambda>f. f \<noteq> []) [claudeExecutionOutputPath S]) \<and>
   ((\<forall>q\<in>set qs. fs q = Missing \<or> fs q = Unreadable) \<longrightarrow>
      readFirstExisting fs qs = ([], []) \<and>
      (\<forall>c. fs p = Content c \<longrightarrow> readFirstExisting fs (qs @ p # ps) = (c, p))) \<and>
   fst (postClaudeResponse S e h) = Inr () \<and>
   ((\<forall>q\<in>set (possibleOutputFiles S e). files S h q = Missing \<or> files S h q = Unreadable) \<longrightarrow>
      postClaudeResponse S e h = (Inr (), h))"
proof -
  let ?json = "path_join [tempDir ev, ''claude-execution-output.json'']"
  let ?txt = "path_join [tempDir ev, ''output.txt'']"
  have none: "getExecutionDetails ev fs None = None" "getExecutionDetails ev fs (Some []) = None"
    by (simp_all add: getExecutionDetails_def)
  have first: "\<And>c. f \<noteq> [] \<Longrightarrow> fs f = Content c \<Longrightarrow>
      getExecutionDetails ev fs (Some f) = details_from_content c"
    by (simp add: getExecutionDetails_def)
  have second: "\<And>c. f \<noteq> [] \<Longrightarrow> fs f = Missing \<or> fs f = Unreadable \<Longrightarrow> fs ?json = Content c \<Longrightarrow>
      getExecutionDetails ev fs (Some f) = details_from_content c"
    by (auto simp add: getExecutionDetails_def)
  have third: "\<And>c. f \<noteq> [] \<Longrightarrow> fs f = Missing \<or> fs f = Unreadable \<Longrightarrow>
      fs ?json = Missing \<or> fs ?json = Unreadable \<Longrightarrow> fs ?txt = Content c \<Longrightarrow>
      getExecutionDetails ev fs (Some f) = details_from_content c"
    by (auto simp add: getExecutionDetails_def)
  have absent: "f \<noteq> [] \<Longrightarrow> fs f = Missing \<or> fs f = Unreadable \<Longrightarrow>
      fs ?json = Missing \<or> fs ?json = Unreadable \<Longrightarrow> fs ?txt = Missing \<or> fs ?txt = Unreadable \<Longrightarrow>
      getExecutionDetails ev fs (Some f) = None"
    by (auto simp add: getExecutionDetails_def details_from_content_empty)
  have unset: "outputFile e = None \<or> outputFile e = Some [] \<Longrightarrow>
      possibleOutputFiles S e =
        jsonOutputFile S # txtOutputFile S # filter (\<lambda>f. f \<noteq> []) [claudeExecutionOutputPath S]"
    by (rule possibleOutputFiles_unset)
  have given: "f \<noteq> [] \<Longrightarrow> outputFile e = Some f \<Longrightarrow>
      possibleOutputFiles S e =
        f # jsonOutputFile S # txtOutputFile S # filter (\<lambda>f. f \<noteq> []) [claudeExecutionOutputPath S]"
    by (rule possibleOutputFiles_set)
  have loop: "\<forall>q\<in>set qs. fs q = Missing \<or> fs q = Unreadable \<Longrightarrow>
      readFirstExisting fs qs = ([], []) \<and>
      (\<forall>c. fs p = Content c \<longrightarrow> readFirstExisting fs (qs @ p # ps) = (c, p))"
    using readFirstExisting_none [of qs fs] readFirstExisting_first [of qs fs p _ ps] by blast
  have quiet: "\<forall>q\<in>set (possibleOutputFiles S e). files S h q = Missing \<or> files S h q = Unreadable \<Longrightarrow>
      postClaudeResponse S e h = (Inr (), h)"
    by (rule postClaudeResponse_nothing_found)
  show ?thesis
    using none first second third absent unset given loop quiet postClaudeResponse_never_throws [of S e h]
    by blast
qed

text \<open>Only \<^verbatim>\<open>output.txt\<close> exists, with the transcript of the scenario. Without a path the
  reader answers \<^verbatim>\<open>null\<close>; with the path of a file that does not exist it finds the
  transcript and its result record.\<close>

theorem no_path_no_search_counterexample:
  "getExecutionDetails demo_env fs_txt_only None = None \<and>
   getExecutionDetails demo_env fs_txt_only (Some ''/tmp/claude-execution-output.json'') =
     Some \<lparr>cost_usd = Some (JNum (to_double (2 / 100))), duration_ms = Some (JNum 1500)\<rparr>"
  by (simp add: getExecutionDetails_def tmp_json_path tmp_txt_path fs_txt_only_def
        transcript_details to_double_cost)

theorem artifact_reader_candidates_witness:
  "getExecutionDetails demo_env fs_txt_only (Some ''/tmp/claude-execution-output.json'') =
     details_from_content scenario_transcript \<and>
   getExecutionDetails demo_env (\<lambda>p. Missing) (Some ''/tmp/claude-execution-output.json'') = None \<and>
   possibleOutputFiles world_git initial_result =
     [''/tmp/claude-execution-output.json'', ''/tmp/output.txt'', ''/tmp/claude-execution-output.json''] \<and>
   readFirstExisting fs_txt_only (possibleOutputFiles world_git initial_result) =
     (scenario_transcript, ''/tmp/output.txt'') \<and>
   postClaudeResponse world_git initial_result [] = (Inr (), []) \<and>
   getExecutionDetails demo_env fs_both (Some ''/tmp/elsewhere.json'') = details_from_content ''[]'' \<and>
   getExecutionDetails demo_env fs_both (Some ''/tmp/output.txt'') =
     details_from_content scenario_transcript \<and>
   possibleOutputFiles world_git (initial_result\<lparr>outputFile := Some ''/tmp/output.txt''\<rparr>) =
     [''/tmp/output.txt'', ''/tmp/claude-execution-output.json'', ''/tmp/output.txt'',
      ''/tmp/claude-execution-output.json'']"
proof -
  let ?f = "''/tmp/claude-execution-output.json''"
  have f: "getExecutionDetails demo_env fs_both (Some ''/tmp/elsewhere.json'') = details_from_content ''[]''"
    using artifact_reader_candidates [of demo_env fs_both "''/tmp/elsewhere.json''"]
    by (simp add: tmp_json_path tmp_txt_path fs_both_def)
  have g: "getExecutionDetails demo_env fs_both (Some ''/tmp/output.txt'') =
      details_from_content scenario_transcript"
    using artifact_reader_candidates [of demo_env fs_both "''/tmp/output.txt''"]
    by (simp add: tmp_json_path tmp_txt_path fs_both_def)
  have i: "possibleOutputFiles world_git (initial_result\<lparr>outputFile := Some ''/tmp/output.txt''\<rparr>) =
      [''/tmp/output.txt'', ?f, ''/tmp/output.txt'', ?f]"
    using artifact_reader_candidates [of _ _ "''/tmp/output.txt''"
        "initial_result\<lparr>outputFile := Some ''/tmp/output.txt''\<rparr>" world_git]
    by (simp add: initial_result_def world_git_def jsonOutputFile_demo txtOutputFile_demo)
       (simp add: demo_sys_def)
  have a: "getExecutionDetails demo_env fs_txt_only (Some ?f) = details_from_content scenario_transcript"
    using artifact_reader_candidates [of demo_env fs_txt_only ?f]
    by (simp add: tmp_json_path tmp_txt_path fs_txt_only_def)
  have b: "getExecutionDetails demo_env (\<lambda>p. Missing) (Some ?f) = None"
    using artifact_reader_candidates [of demo_env "\<lambda>p. Missing" ?f]
    by simp
  have c: "possibleOutputFiles world_git initial_result = [?f, ''/tmp/output.txt'', ?f]"
    using artifact_reader_candidates [of _ _ _ initial_result world_git]
    by (simp add: initial_result_def world_git_def jsonOutputFile_demo txtOutputFile_demo)
       (simp add: demo_sys_def)
  have d: "readFirstExisting fs_txt_only ([?f] @ ''/tmp/output.txt'' # [?f]) = (scenario_transcript, ''/tmp/output.txt'')"
    using artifact_reader_candidates [of _ fs_txt_only _ _ _ "[?f]" "''/tmp/output.txt''" "[?f]"]
    by (simp add: fs_txt_only_def)
  have e: "postClaudeResponse world_git initial_result [] = (Inr (), [])"
    using artifact_reader_candidates [of _ _ _ initial_result world_git _ _ _ "[]"]
    by (simp add: world_git_def demo_sys_def)
  show ?thesis
    using a b c d e f g i by simp
qed


subsection \<open>Which of the two files is used\<close>

lemma actualOutputFile_json:
  "existsSync fs (jsonOutputFile S) \<Longrightarrow> actualOutputFile S fs = jsonOutputFile S"
  by (simp add: actualOutputFile_def)

lemma update_outputFile_json:
  "existsSync fs (jsonOutputFile S) \<Longrightarrow> outputFile e = None \<or> outputFile e = Some [] \<Longrightarrow>
   update_outputFile S e fs = jsonOutputFile S"
  by (auto simp add: update_outputFile_def opt_or_def)

lemma update_outputFile_given:
  "outputFile e = Some f \<Longrightarrow> f \<noteq> [] \<Longrightarrow> update_outputFile S e fs = f"
  by (simp add: update_outputFile_def opt_or_def)

lemma poster_candidates_cases:
  assumes "outputFile e = None \<or> outputFile e = Some [] \<or> outputFile e = Some (jsonOutputFile S)"
  shows "possibleOutputFiles S e =
           jsonOutputFile S # txtOutputFile S # filter (\<lambda>f. f \<noteq> []) [claudeExecutionOutputPath S] \<or>
         possibleOutputFiles S e =
           jsonOutputFile S # jsonOutputFile S # txtOutputFile S
             # filter (\<lambda>f. f \<noteq> []) [claudeExecutionOutputPath S]"
proof (cases "outputFile e = Some (jsonOutputFile S)")
  case True
  then have "possibleOutputFiles S e =
      jsonOutputFile S # jsonOutputFile S # txtOutputFile S
        # filter (\<lambda>f. f \<noteq> []) [claudeExecutionOutputPath S]"
    by (rule possibleOutputFiles_set) (rule jsonOutputFile_not_Nil)
  then show ?thesis
    by blast
next
  case False
  then have "possibleOutputFiles S e =
      jsonOutputFile S # txtOutputFile S # filter (\<lambda>f. f \<noteq> []) [claudeExecutionOutputPath S]"
    using assms possibleOutputFiles_unset by blast
  then show ?thesis
    by blast
qed

lemma poster_reads_json:
  assumes "outputFile e = None \<or> outputFile e = Some [] \<or> outputFile e = Some (jsonOutputFile S)"
    and "fs (jsonOutputFile S) = Content c"
  shows "readFirstExisting fs (possibleOutputFiles S e) = (c, jsonOutputFile S)"
  using poster_candidates_cases [OF assms(1)] assms(2) by auto

lemma poster_passes_over_unreadable_json:
  assumes "outputFile e = None \<or> outputFile e = Some [] \<or> outputFile e = Some (jsonOutputFile S)"
    and "fs (jsonOutputFile S) = Unreadable" and "fs (txtOutputFile S) = Content c"
  shows "readFirstExisting fs (possibleOutputFiles S e) = (c, txtOutputFile S)"
  using poster_candidates_cases [OF assms(1)] assms(2,3) by auto

lemma runExecutePhase_json:
  assumes "runExecutePhase S p h = (e, h')" and "existsSync (files S h') (jsonOutputFile S)"
  shows "outputFile e = None \<or> outputFile e = Some (jsonOutputFile S)"
  using runExecutePhase_outputFile [OF assms(1)] actualOutputFile_json [OF assms(2)] by simp

text \<open>
  C6, as amended. When \<^verbatim>\<open>claude-execution-output.json\<close> exists in the temporary
  directory, the execute phase selects it, so the execute result names it or, after an
  exception, no file; the update phase selects it when the execute result names no
  file, and otherwise keeps the file of the execute result. The response poster tries
  the file of the execute result first, then the JSON file, then \<^verbatim>\<open>output.txt\<close>: when
  the execute result names the JSON file or no file, it reads the JSON file if that can
  be read, and if the JSON file exists but cannot be read it passes it over and reads
  \<^verbatim>\<open>output.txt\<close>. The two paths are never the same.
\<close>

theorem json_file_preferred:
  "(existsSync fs (jsonOutputFile S) \<longrightarrow>
      actualOutputFile S fs = jsonOutputFile S \<and>
      (outputFile e = None \<or> outputFile e = Some [] \<longrightarrow>
         update_outputFile S e fs = jsonOutputFile S)) \<and>
   (runExecutePhase S p h = (e', h') \<and> existsSync (files S h') (jsonOutputFile S) \<longrightarrow>
      outputFile e' = None \<or> outputFile e' = Some (jsonOutputFile S)) \<and>
   (outputFile e = Some f \<and> f \<noteq> [] \<longrightarrow> update_outputFile S e fs = f) \<and>
   (outputFile e = None \<or> outputFile e = Some [] \<or> outputFile e = Some (jsonOutputFile S) \<longrightarrow>
      (\<forall>c. fs (jsonOutputFile S) = Content c \<longrightarrow>
         readFirstExisting fs (possibleOutputFiles S e) = (c, jsonOutputFile S)) \<and>
      (\<forall>c. fs (jsonOutputFile S) = Unreadable \<and> fs (txtOutputFile S) = Content c \<longrightarrow>
         readFirstExisting fs (possibleOutputFiles S e) = (c, txtOutputFile S))) \<and>
   jsonOutputFile S \<noteq> txtOutputFile S"
  using actualOutputFile_json [of fs S] update_outputFile_json [of fs S e]
    runExecutePhase_json [of S p h e' h'] update_outputFile_given [of e f S fs]
    poster_reads_json [of e S fs] poster_passes_over_unreadable_json [of e S fs]
    json_txt_distinct [of S]
  by blast

lemma world_json_unreadable_execute:
  "runExecutePhase world_json_unreadable prepared_42 [] =
     (\<lparr>success = True, error = None, commentId = Some (Number 42),
       outputFile = Some ''/tmp/claude-execution-output.json''\<rparr>,
      [Chdir ''/builds/group/app'', GitFetch ''claude-issue-7'', GitCheckout ''claude-issue-7'',
       GitRevParseHead, BunInstallGlobal ''@anthropic-ai/claude-code@2.1.15'',
       BunInstallIn ''/app/base-action'',
       BunRun ''/app/base-action/src/index.ts'' (base_action_env world_json_unreadable)])"
  by (simp add: world_json_unreadable_def respond_all_ok_def fs_json_unreadable_def
        str_defs path_defs io_defs execute_defs demo_defs Let_def)

lemma world_json_unreadable_candidates:
  "possibleOutputFiles world_json_unreadable
       \<lparr>success = True, error = None, commentId = Some (Number 42),
        outputFile = Some ''/tmp/claude-execution-output.json''\<rparr> =
     [''/tmp/claude-execution-output.json'', ''/tmp/claude-execution-output.json'', ''/tmp/output.txt'',
      ''/tmp/claude-execution-output.json'']"
  by (simp add: possibleOutputFiles_def world_json_unreadable_def jsonOutputFile_demo txtOutputFile_demo
        opt_or_def)
     (simp add: demo_sys_def)

lemma world_json_unreadable_post:
  "postClaudeResponse world_json_unreadable
       \<lparr>success = True, error = None, commentId = Some (Number 42),
        outputFile = Some ''/tmp/claude-execution-output.json''\<rparr> h =
     (Inr (), h @ [CreateComment (response_comment ''Done.'')])"
proof -
  have "files world_json_unreadable h = fs_json_unreadable"
    by (simp add: world_json_unreadable_def demo_sys_def)
  moreover have "scenario_transcript \<noteq> []"
    by (simp add: scenario_transcript_def)
  ultimately show ?thesis
    by (simp add: postClaudeResponse_def world_json_unreadable_candidates fs_json_unreadable_def
          transcript_message try_catch_def js_call_def call_result_def ret_def truthy.simps
          js_string.simps)
qed

text \<open>Both files exist after the assistant has run, and the JSON file cannot be read.
  The execute phase selects the JSON file; the response poster, given that result,
  reads \<^verbatim>\<open>output.txt\<close> and posts the message it finds there.\<close>

theorem unreadable_json_counterexample:
  "existsSync fs_json_unreadable (jsonOutputFile world_json_unreadable) \<and>
   existsSync fs_json_unreadable (txtOutputFile world_json_unreadable) \<and>
   outputFile (fst (runExecutePhase world_json_unreadable prepared_42 [])) =
     Some (jsonOutputFile world_json_unreadable) \<and>
   readFirstExisting fs_json_unreadable
       (possibleOutputFiles world_json_unreadable
          (fst (runExecutePhase world_json_unreadable prepared_42 []))) =
     (scenario_transcript, txtOutputFile world_json_unreadable) \<and>
   snd (postClaudeResponse world_json_unreadable
          (fst (runExecutePhase world_json_unreadable prepared_42 [])) []) =
     [CreateComment (response_comment ''Done.'')]"
  by (simp add: world_json_unreadable_execute world_json_unreadable_post
        world_json_unreadable_candidates)
     (simp add: world_json_unreadable_def jsonOutputFile_demo txtOutputFile_demo existsSync_def
        fs_json_unreadable_def)

theorem json_file_preferred_witness:
  "actualOutputFile world_json_unreadable fs_both = ''/tmp/claude-execution-output.json'' \<and>
   update_outputFile world_json_unreadable initial_result fs_both = ''/tmp/claude-execution-output.json'' \<and>
   update_outputFile world_json_unreadable (initial_result\<lparr>outputFile := Some ''/tmp/output.txt''\<rparr>) fs_both =
     ''/tmp/output.txt'' \<and>
   outputFile (fst (runExecutePhase world_json_unreadable prepared_42 [])) =
     Some ''/tmp/claude-execution-output.json'' \<and>
   readFirstExisting fs_both (possibleOutputFiles world_json_unreadable initial_result) =
     (''[]'', ''/tmp/claude-execution-output.json'') \<and>
   readFirstExisting fs_json_unreadable (possibleOutputFiles world_json_unreadable initial_result) =
     (scenario_transcript, ''/tmp/output.txt'')"
proof -
  let ?W = world_json_unreadable
  have j: "jsonOutputFile ?W = ''/tmp/claude-execution-output.json''"
    by (simp add: world_json_unreadable_def jsonOutputFile_demo)
  have t: "txtOutputFile ?W = ''/tmp/output.txt''"
    by (simp add: world_json_unreadable_def txtOutputFile_demo)
  have a: "actualOutputFile ?W fs_both = ''/tmp/claude-execution-output.json''"
    using json_file_preferred [of fs_both ?W] by (simp add: j existsSync_def fs_both_def)
  have b: "update_outputFile ?W initial_result fs_both = ''/tmp/claude-execution-output.json''"
    using json_file_preferred [of fs_both ?W initial_result]
    by (simp add: j existsSync_def fs_both_def initial_result_def)
  have c: "update_outputFile ?W (initial_result\<lparr>outputFile := Some ''/tmp/output.txt''\<rparr>) fs_both =
      ''/tmp/output.txt''"
    using json_file_preferred [of _ ?W "initial_result\<lparr>outputFile := Some ''/tmp/output.txt''\<rparr>"
        _ _ _ _ "''/tmp/output.txt''"]
    by simp
  have d: "readFirstExisting fs_both (possibleOutputFiles ?W initial_result) =
      (''[]'', ''/tmp/claude-execution-output.json'')"
    using json_file_preferred [of fs_both ?W initial_result]
    by (simp add: j fs_both_def initial_result_def)
  have e: "readFirstExisting fs_json_unreadable (possibleOutputFiles ?W initial_result) =
      (scenario_transcript, ''/tmp/output.txt'')"
    using json_file_preferred [of fs_json_unreadable ?W initial_result]
    by (simp add: j t fs_json_unreadable_def initial_result_def)
  have "files ?W (snd (runExecutePhase ?W prepared_42 [])) = fs_json_unreadable"
    by (simp add: world_json_unreadable_def demo_sys_def)
  then have "existsSync (files ?W (snd (runExecutePhase ?W prepared_42 []))) (jsonOutputFile ?W)"
    by (simp add: j existsSync_def fs_json_unreadable_def)
  then have "outputFile (fst (runExecutePhase ?W prepared_42 [])) = None \<or>
      outputFile (fst (runExecutePhase ?W prepared_42 [])) = Some (jsonOutputFile ?W)"
    using json_file_preferred [of _ ?W _ prepared_42 "[]" "fst (runExecutePhase ?W prepared_42 [])"
        "snd (runExecutePhase ?W prepared_42 [])"]
    by simp
  then have g: "outputFile (fst (runExecutePhase ?W prepared_42 [])) = Some ''/tmp/claude-execution-output.json''"
    by (simp add: world_json_unreadable_execute j)
  show ?thesis
    using a b c d e g by simp
qed

end
